theory Spec2Isabelle
  imports Main "HOL-Library.Sublist"
begin

section \<open>JavaScript values used by the Injector\<close>

text \<open>
  Strings are sequences of code units (\<open>string\<close>). A value of type
  \<open>string | null | undefined\<close> is a \<open>string option\<close>; it is truthy when it is a
  string that is not empty.
\<close>

fun truthy :: "string option \<Rightarrow> bool" where
  "truthy None = False"
| "truthy (Some s) = (s \<noteq> [])"

definition startsWith :: "string \<Rightarrow> string \<Rightarrow> bool" where
  "startsWith s p = prefix p s"

text \<open>\<open>s.indexOf(p)\<close>: the first position where \<open>p\<close> occurs in \<open>s\<close>, or \<open>-1\<close>.\<close>

fun indexOfFrom :: "string \<Rightarrow> string \<Rightarrow> nat \<Rightarrow> int" where
  "indexOfFrom [] p i = (if p = [] then int i else - 1)"
| "indexOfFrom (c # cs) p i =
     (if prefix p (c # cs) then int i else indexOfFrom cs p (Suc i))"

definition indexOf :: "string \<Rightarrow> string \<Rightarrow> int" where
  "indexOf s p = indexOfFrom s p 0"

text \<open>\<open>s.slice(i)\<close>: a negative start counts from the end of the string.\<close>

definition slice :: "string \<Rightarrow> int \<Rightarrow> string" where
  "slice s i =
     (if i < 0 then drop (nat (max 0 (int (length s) + i))) s else drop (nat i) s)"

text \<open>
  \<open>s.replace(pat, repl)\<close> with a string pattern: the first occurrence of \<open>pat\<close> is
  replaced; in \<open>repl\<close> the sequences \<open>$$\<close>, \<open>$&\<close>, \<open>$`\<close> and \<open>$'\<close> stand for a
  dollar sign, the matched text, the text before it and the text after it.
\<close>

fun splitFirst :: "string \<Rightarrow> string \<Rightarrow> string \<Rightarrow> (string \<times> string) option" where
  "splitFirst pat [] front = (if pat = [] then Some (front, []) else None)"
| "splitFirst pat (c # cs) front =
     (if prefix pat (c # cs) then Some (front, drop (length pat) (c # cs))
      else splitFirst pat cs (front @ [c]))"

fun expandReplacement :: "string \<Rightarrow> string \<Rightarrow> string \<Rightarrow> string \<Rightarrow> string" where
  "expandReplacement [] front matched back = []"
| "expandReplacement [c] front matched back = [c]"
| "expandReplacement (c # d # r) front matched back =
     (if c = CHR ''$'' \<and> d = CHR ''$'' then CHR ''$'' # expandReplacement r front matched back
      else if c = CHR ''$'' \<and> d = CHR ''&'' then matched @ expandReplacement r front matched back
      else if c = CHR ''$'' \<and> d = CHR 0x60 then front @ expandReplacement r front matched back
      else if c = CHR ''$'' \<and> d = CHR 0x27 then back @ expandReplacement r front matched back
      else c # expandReplacement (d # r) front matched back)"

definition replace :: "string \<Rightarrow> string \<Rightarrow> string \<Rightarrow> string" where
  "replace s pat repl =
     (case splitFirst pat s [] of
        None \<Rightarrow> s
      | Some (front, back) \<Rightarrow> front @ expandReplacement repl front pat back @ back)"

section \<open>Data model\<close>

text \<open>\<open>Status\<close> is \<open>"perfect" | "partial" | null\<close>: a \<open>status option\<close>.\<close>

datatype status = perfect | partial

datatype MatchQuality = full | partial_quality

text \<open>A thrown JavaScript error, with its message.\<close>

datatype error = Error string | TypeError string

text \<open>
  The fields of the interfaces carry a prefix (\<open>cr_\<close>, \<open>m_\<close>, \<open>c_\<close>, \<open>rc_\<close>,
  \<open>in_\<close>, \<open>pc_\<close>) where several interfaces or a variable of the code share a name.
\<close>

record CompareResult =
  cr_status :: "status option"
  cr_encodedConstructorArgs :: "string option"

record Match =
  m_address :: "string option"
  m_status :: "status option"
  m_encodedConstructorArgs :: "string option"
  m_message :: "string option"

text \<open>
  \<open>InjectorChain\<close>: a provider handle is the string naming its endpoint; the optional
  configuration strings may be absent, and an archive provider is an object or absent.
\<close>

record InjectorChain =
  web3 :: string
  rpc :: "string list"
  name :: "string option"
  contractFetchAddress :: "string option"
  graphQLFetchAddress :: "string option"
  txRegex :: "string option"
  archiveWeb3 :: "string option"

text \<open>
  \<open>CheckedContract\<close>, \<open>RecompilationResult\<close> and \<open>InputData\<close>, with the fields the
  Injector reads. The sources are the \<open>StringMap\<close> in the order in which
  \<open>for ... in\<close> enumerates it. An entry of \<open>addresses\<close> may be \<open>null\<close>.
\<close>

record CheckedContract =
  c_name :: string
  c_metadata :: string
  c_solidity :: "(string \<times> string) list"

record RecompilationResult =
  rc_bytecode :: string
  rc_deployedBytecode :: string
  rc_metadata :: string

record InputData =
  in_chain :: string
  in_addresses :: "string option list"
  in_contract :: CheckedContract
  in_bytecode :: "string option"
  in_creationData :: "string option"

text \<open>The target of \<open>fileService.save\<close>: a path, or a path configuration object.\<close>

record PathConfig =
  matchQuality :: "MatchQuality option"
  pc_chain :: string
  pc_address :: string
  source :: "bool option"
  fileName :: string

datatype save_target = Path string | Config PathConfig

text \<open>
  Everything the Injector does to the outside world is an event appended to a trace:
  a call of the logger (level, \<open>loc\<close> field, \<open>err\<close> field, message), a call of one
  of the network helpers with its arguments, and a call of the file service.
\<close>

datatype level = Info | Err

datatype event =
    Log level string "string option" "string option"
  | GetBytecode string string
  | Scraping string string string
  | GraphQL string string string
  | Archive string string
  | Save save_target string
  | DeletePartial string string

text \<open>
  The collaborators that are imported from other modules are parameters of the model:
  the chain map of the Injector, the helpers of \<open>../utils\<close>
  (\<open>getBytecode\<close>, \<open>getBytecodeWithoutMetadata\<close>, the three creation-data
  helpers, \<open>recompile\<close>), \<open>Web3.utils\<close>, \<open>cborDecode\<close>, \<open>CheckedContract\<close> and
  \<open>multihashes\<close>. \<open>fetchMissing\<close> returns the contract as it has filled it. A
  decoded trailer maps a key to the bytes stored under it. A helper that awaits
  the network either returns a string or throws; its answer is a function of its
  arguments during one verification. The file service is the \<open>IFileService\<close> the
  Injector is configured with: a call of \<open>save\<close> or \<open>deletePartial\<close> returns
  (\<open>None\<close>) or throws (\<open>Some\<close> of the error).
\<close>

record env =
  chains :: "string \<Rightarrow> InjectorChain option"
  getBytecode :: "string \<Rightarrow> string \<Rightarrow> error + string"
  trimMetadata :: "string \<Rightarrow> string"
  getCreationDataByScraping :: "string \<Rightarrow> string \<Rightarrow> string \<Rightarrow> error + string"
  getCreationDataFromGraphQL :: "string \<Rightarrow> string \<Rightarrow> string \<Rightarrow> error + string"
  getCreationDataFromArchive :: "string \<Rightarrow> string \<Rightarrow> error + string"
  toChecksumAddress :: "string \<Rightarrow> error + string"
  hexToBytes :: "string \<Rightarrow> error + nat list"
  bytesToHex :: "nat list \<Rightarrow> string"
  cborDecode :: "nat list \<Rightarrow> error + (string \<Rightarrow> nat list option)"
  toB58String :: "nat list \<Rightarrow> string"
  isValid :: "CheckedContract \<Rightarrow> bool"
  fetchMissing :: "CheckedContract \<Rightarrow> error + CheckedContract"
  recompile :: "string \<Rightarrow> (string \<times> string) list \<Rightarrow> error + RecompilationResult"
  fs_save :: "save_target \<Rightarrow> string \<Rightarrow> error option"
  fs_deletePartial :: "string \<Rightarrow> string \<Rightarrow> error option"

definition errMessage :: "error \<Rightarrow> string" where
  "errMessage e = (case e of Error m \<Rightarrow> m | TypeError m \<Rightarrow> m)"

section \<open>getCreationData\<close>

definition loc_creation :: string where
  "loc_creation = ''[GET_CREATION_DATA]''"

text \<open>
  Each of the three blocks of \<open>getCreationData\<close> either returns from the function
  (\<open>Some\<close> of the returned string) or falls through to the code after it (\<open>None\<close>).
\<close>

definition scrapeBlock ::
  "env \<Rightarrow> InjectorChain \<Rightarrow> string \<Rightarrow> event list \<Rightarrow> string option \<times> event list" where
  "scrapeBlock E c contractAddress tr =
     (if truthy (contractFetchAddress c) \<and> truthy (txRegex c) then
        (let txFetchAddress = replace (the (contractFetchAddress c)) ''${ADDRESS}'' contractAddress;
             tr1 = tr @ [Log Info loc_creation None (Some ''Scraping block explorer''),
                         Scraping txFetchAddress (the (txRegex c)) (web3 c)]
         in case getCreationDataByScraping E txFetchAddress (the (txRegex c)) (web3 c) of
              Inr v \<Rightarrow> (Some v, tr1)
            | Inl e \<Rightarrow> (None, tr1 @ [Log Err loc_creation (Some (errMessage e)) (Some ''Scraping failed!'')]))
      else (None, tr))"

definition graphQLBlock ::
  "env \<Rightarrow> InjectorChain \<Rightarrow> string \<Rightarrow> event list \<Rightarrow> string option \<times> event list" where
  "graphQLBlock E c contractAddress tr =
     (if truthy (graphQLFetchAddress c) then
        (let tr1 = tr @ [GraphQL (the (graphQLFetchAddress c)) contractAddress (web3 c)]
         in case getCreationDataFromGraphQL E (the (graphQLFetchAddress c)) contractAddress (web3 c) of
              Inr v \<Rightarrow> (Some v, tr1)
            | Inl e \<Rightarrow> (None, tr1 @ [Log Err loc_creation (Some (errMessage e)) None]))
      else (None, tr))"

definition archiveBlock ::
  "env \<Rightarrow> InjectorChain \<Rightarrow> string \<Rightarrow> event list \<Rightarrow> string option \<times> event list" where
  "archiveBlock E c contractAddress tr =
     (case archiveWeb3 c of
        Some a \<Rightarrow>
          (let tr1 = tr @ [Log Info loc_creation None (Some ''Fetching archive data''),
                           Archive contractAddress a]
           in case getCreationDataFromArchive E contractAddress a of
                Inr v \<Rightarrow> (Some v, tr1)
              | Inl e \<Rightarrow> (None, tr1 @ [Log Err loc_creation (Some (errMessage e)) (Some ''Archive search failed!'')]))
      | None \<Rightarrow> (None, tr))"

definition cannotFetch :: string where
  "cannotFetch = ''Cannot fetch creation data''"

definition getCreationData ::
  "env \<Rightarrow> string \<Rightarrow> string \<Rightarrow> event list \<Rightarrow> (error + string) \<times> event list" where
  "getCreationData E chain contractAddress tr =
     (case chains E chain of
        None \<Rightarrow> (Inl (TypeError ''Cannot read properties of undefined''), tr)
      | Some c \<Rightarrow>
          (case scrapeBlock E c contractAddress tr of
             (Some v, tr1) \<Rightarrow> (Inr v, tr1)
           | (None, tr1) \<Rightarrow>
               (case graphQLBlock E c contractAddress tr1 of
                  (Some v, tr2) \<Rightarrow> (Inr v, tr2)
                | (None, tr2) \<Rightarrow>
                    (case archiveBlock E c contractAddress tr2 of
                       (Some v, tr3) \<Rightarrow> (Inr v, tr3)
                     | (None, tr3) \<Rightarrow>
                         (Inl (Error cannotFetch),
                          tr3 @ [Log Err loc_creation (Some cannotFetch) None])))))"

section \<open>compareBytecodes\<close>

definition extractEncodedConstructorArgs :: "string \<Rightarrow> string \<Rightarrow> string" where
  "extractEncodedConstructorArgs creationData compiledCreationBytecode =
     (let startIndex = indexOf creationData compiledCreationBytecode
      in ''0x'' @ slice creationData (startIndex + int (length compiledCreationBytecode)))"

definition noMatch :: CompareResult where
  "noMatch = \<lparr>cr_status = None, cr_encodedConstructorArgs = None\<rparr>"

text \<open>
  The comparison of the creation data, once it has been supplied or fetched
  (the body of \<open>if (creationData)\<close>).
\<close>

definition compareCreation :: "env \<Rightarrow> string \<Rightarrow> string \<Rightarrow> CompareResult" where
  "compareCreation E creationData compiledCreationBytecode =
     (if startsWith creationData compiledCreationBytecode then
        \<lparr>cr_status = Some perfect,
         cr_encodedConstructorArgs =
           Some (extractEncodedConstructorArgs creationData compiledCreationBytecode)\<rparr>
      else if startsWith creationData (trimMetadata E compiledCreationBytecode) then
        \<lparr>cr_status = Some partial, cr_encodedConstructorArgs = None\<rparr>
      else noMatch)"

definition compareBytecodes ::
  "env \<Rightarrow> string option \<Rightarrow> string option \<Rightarrow> string \<Rightarrow> string \<Rightarrow> string \<Rightarrow> string
     \<Rightarrow> event list \<Rightarrow> (error + CompareResult) \<times> event list" where
  "compareBytecodes E deployedBytecode creationData compiledRuntimeBytecode
       compiledCreationBytecode chain addr tr =
     (case deployedBytecode of
        None \<Rightarrow> (Inr noMatch, tr)
      | Some d \<Rightarrow>
          if \<not> (d \<noteq> [] \<and> length d > 2) then (Inr noMatch, tr)
          else if d = compiledRuntimeBytecode then
            (Inr \<lparr>cr_status = Some perfect, cr_encodedConstructorArgs = None\<rparr>, tr)
          else if trimMetadata E d = trimMetadata E compiledRuntimeBytecode then
            (Inr \<lparr>cr_status = Some partial, cr_encodedConstructorArgs = None\<rparr>, tr)
          else if length (trimMetadata E d) = length (trimMetadata E compiledRuntimeBytecode) then
            (if truthy creationData then
               (Inr (compareCreation E (the creationData) compiledCreationBytecode), tr)
             else
               (case getCreationData E chain addr tr of
                  (Inl e, tr1) \<Rightarrow> (Inl e, tr1)
                | (Inr fetched, tr1) \<Rightarrow>
                    if fetched \<noteq> [] then
                      (Inr (compareCreation E fetched compiledCreationBytecode), tr1)
                    else (Inr noMatch, tr1)))
          else (Inr noMatch, tr))"

section \<open>matchBytecodeToAddress\<close>

definition emptyMatch :: Match where
  "emptyMatch = \<lparr>m_address = None, m_status = None, m_encodedConstructorArgs = None,
                  m_message = None\<rparr>"

definition msgProblems :: string where
  "msgProblems = ''There were problems during contract verification. Please try again in a minute.''"

definition msgUnavailable :: "string \<Rightarrow> string" where
  "msgUnavailable chainName = chainName @ '' is temporarily unavailable.''"

definition msgNoContract :: "string \<Rightarrow> string \<Rightarrow> string" where
  "msgNoContract chainName addr =
     chainName @ '' does not have a contract deployed at '' @ addr @ ''.''"

definition msgNoMatch :: string where
  "msgNoMatch = ''The deployed and recompiled bytecode don't match.''"

text \<open>
  The body of the \<open>for\<close> loop over the candidate addresses. \<open>n\<close> is
  \<open>addresses.length\<close>, \<open>match\<close> the variable of that name. \<open>break\<close> ends the
  recursion; a throw of \<open>toChecksumAddress\<close>, which no \<open>try\<close> encloses, ends the
  function.
\<close>

fun matchLoop ::
  "env \<Rightarrow> InjectorChain \<Rightarrow> string \<Rightarrow> string \<Rightarrow> nat \<Rightarrow> string \<Rightarrow> string \<Rightarrow> string list
     \<Rightarrow> Match \<Rightarrow> event list \<Rightarrow> (error + Match) \<times> event list" where
  "matchLoop E c chain chainName n compiledRuntimeBytecode compiledCreationBytecode [] match tr =
     (Inr match, tr)"
| "matchLoop E c chain chainName n compiledRuntimeBytecode compiledCreationBytecode (a # rest) match tr =
     (case toChecksumAddress E a of
        Inl e \<Rightarrow> (Inl e, tr)
      | Inr addr \<Rightarrow>
          (let tr1 = tr @ [Log Info ''[MATCH]'' None (Some ''Retrieving contract bytecode address''),
                           GetBytecode (web3 c) addr];
               deployedBytecode = (case getBytecode E (web3 c) addr of
                                     Inl e \<Rightarrow> None | Inr b \<Rightarrow> Some b)
           in case compareBytecodes E deployedBytecode None compiledRuntimeBytecode
                     compiledCreationBytecode chain addr tr1 of
                (r, tr2) \<Rightarrow>
                  (let compareResult = (case r of Inl e \<Rightarrow> None | Inr cr \<Rightarrow> Some cr);
                       match1 = (case r of
                                   Inl e \<Rightarrow> if n = 1 then match\<lparr>m_message := Some msgProblems\<rparr>
                                            else match
                                 | Inr cr \<Rightarrow> match)
                   in if compareResult \<noteq> None \<and> cr_status (the compareResult) \<noteq> None then
                        (Inr \<lparr>m_address = Some addr,
                              m_status = cr_status (the compareResult),
                              m_encodedConstructorArgs =
                                cr_encodedConstructorArgs (the compareResult),
                              m_message = None\<rparr>, tr2)
                      else
                          matchLoop E c chain chainName n compiledRuntimeBytecode
                            compiledCreationBytecode rest
                            (if n = 1 \<and> \<not> truthy (m_message match1) then
                               (if \<not> truthy deployedBytecode then
                                  match1\<lparr>m_message := Some (msgUnavailable chainName)\<rparr>
                                else if deployedBytecode = Some ''0x'' then
                                  match1\<lparr>m_message := Some (msgNoContract chainName addr)\<rparr>
                                else match1\<lparr>m_message := Some msgNoMatch\<rparr>)
                             else match1)
                            tr2)))"

definition matchBytecodeToAddress ::
  "env \<Rightarrow> string \<Rightarrow> string list \<Rightarrow> string \<Rightarrow> string \<Rightarrow> event list
     \<Rightarrow> (error + Match) \<times> event list" where
  "matchBytecodeToAddress E chain addresses compiledRuntimeBytecode compiledCreationBytecode tr =
     (case chains E chain of
        None \<Rightarrow> (Inl (TypeError ''Cannot read properties of undefined''), tr)
      | Some c \<Rightarrow>
          (let chainName = (if truthy (name c) then the (name c) else ''The chain'')
           in matchLoop E c chain chainName (length addresses) compiledRuntimeBytecode
                compiledCreationBytecode addresses emptyMatch tr))"

section \<open>Storage paths and the file service\<close>

definition statusToMatchQuality :: "status option \<Rightarrow> MatchQuality option" where
  "statusToMatchQuality st =
     (if st = Some perfect then Some full
      else if st = Some partial then Some partial_quality
      else None)"

text \<open>
  \<open>sanitizePath\<close>: every character outside \<open>[a-zA-Z0-9_./-]\<close> becomes an underscore;
  then the first match of \<open>(^|\/)[.]+($|\/)\<close>, a run of dots that is a whole path
  segment, becomes an underscore together with the slashes the match covers.
\<close>

definition allowedChar :: "char \<Rightarrow> bool" where
  "allowedChar c =
     (c \<in> set ''abcdefghijklmnopqrstuvwxyzABCDEFGHIJKLMNOPQRSTUVWXYZ0123456789_./-'')"

definition dotsEnd :: "string \<Rightarrow> string option" where
  "dotsEnd s =
     (let ds = takeWhile (\<lambda>c. c = CHR ''.'') s; r = dropWhile (\<lambda>c. c = CHR ''.'') s
      in if ds = [] then None
         else (case r of [] \<Rightarrow> Some []
                | c # r' \<Rightarrow> if c = CHR ''/'' then Some r' else None))"

fun replaceDotSegment :: "string \<Rightarrow> bool \<Rightarrow> string option" where
  "replaceDotSegment [] atStart = None"
| "replaceDotSegment (c # cs) atStart =
     (if atStart \<and> dotsEnd (c # cs) \<noteq> None then Some (''_'' @ the (dotsEnd (c # cs)))
      else if c = CHR ''/'' \<and> dotsEnd cs \<noteq> None then Some (''_'' @ the (dotsEnd cs))
      else map_option ((#) c) (replaceDotSegment cs False))"

definition sanitizePath :: "string \<Rightarrow> string" where
  "sanitizePath originalPath =
     (let s1 = map (\<lambda>c. if allowedChar c then c else CHR ''_'') originalPath
      in case replaceDotSegment s1 True of None \<Rightarrow> s1 | Some r \<Rightarrow> r)"

definition getMetadataPathFromCborEncoded ::
  "env \<Rightarrow> RecompilationResult \<Rightarrow> string \<Rightarrow> string \<Rightarrow> event list
     \<Rightarrow> (error + string option) \<times> event list" where
  "getMetadataPathFromCborEncoded E compilationResult addr chain tr =
     (case hexToBytes E (rc_deployedBytecode compilationResult) of
        Inl e \<Rightarrow> (Inl e, tr)
      | Inr bytes \<Rightarrow>
          (case cborDecode E bytes of
             Inl e \<Rightarrow> (Inl e, tr)
           | Inr cborData \<Rightarrow>
               (case cborData ''bzzr0'' of
                  Some h \<Rightarrow> (Inr (Some (''/swarm/bzzr0/'' @ slice (bytesToHex E h) 2)), tr)
                | None \<Rightarrow>
                    (case cborData ''bzzr1'' of
                       Some h \<Rightarrow> (Inr (Some (''/swarm/bzzr1/'' @ slice (bytesToHex E h) 2)), tr)
                     | None \<Rightarrow>
                         (case cborData ''ipfs'' of
                            Some h \<Rightarrow> (Inr (Some (''/ipfs/'' @ toB58String E h)), tr)
                          | None \<Rightarrow>
                              (Inr None,
                               tr @ [Log Err ''[INJECTOR:GET_METADATA_PATH]''
                                       (Some ''No metadata hash in cbor encoded data.'') None]))))))"

text \<open>
  A call of the file service is recorded in the trace, and it may throw: the result is
  the error thrown, if any, and the trace with the call.
\<close>

definition fileServiceSave ::
  "env \<Rightarrow> save_target \<Rightarrow> string \<Rightarrow> event list \<Rightarrow> error option \<times> event list" where
  "fileServiceSave E target content tr = (fs_save E target content, tr @ [Save target content])"

definition fileServiceDeletePartial ::
  "env \<Rightarrow> string \<Rightarrow> string \<Rightarrow> event list \<Rightarrow> error option \<times> event list" where
  "fileServiceDeletePartial E chain addr tr =
     (fs_deletePartial E chain addr, tr @ [DeletePartial chain addr])"

definition storeMetadata ::
  "env \<Rightarrow> MatchQuality option \<Rightarrow> string \<Rightarrow> string \<Rightarrow> RecompilationResult \<Rightarrow> event list
     \<Rightarrow> error option \<times> event list" where
  "storeMetadata E q chain addr compilationResult tr =
     fileServiceSave E
       (Config \<lparr>matchQuality = q, pc_chain = chain, pc_address = addr,
                 source = None, fileName = ''metadata.json''\<rparr>)
       (rc_metadata compilationResult) tr"

text \<open>The loop over the sources ends at the first save that throws.\<close>

fun storeSources ::
  "env \<Rightarrow> MatchQuality option \<Rightarrow> string \<Rightarrow> string \<Rightarrow> (string \<times> string) list \<Rightarrow> event list
     \<Rightarrow> error option \<times> event list" where
  "storeSources E q chain addr [] tr = (None, tr)"
| "storeSources E q chain addr ((sourcePath, content) # sources) tr =
     (case fileServiceSave E
             (Config \<lparr>matchQuality = q, pc_chain = chain, pc_address = addr,
                       source = Some True, fileName = sanitizePath sourcePath\<rparr>)
             content tr of
        (Some e, tr1) \<Rightarrow> (Some e, tr1)
      | (None, tr1) \<Rightarrow> storeSources E q chain addr sources tr1)"

definition storeConstructorArgs ::
  "env \<Rightarrow> MatchQuality option \<Rightarrow> string \<Rightarrow> string \<Rightarrow> string \<Rightarrow> event list
     \<Rightarrow> error option \<times> event list" where
  "storeConstructorArgs E q chain addr encodedConstructorArgs tr =
     fileServiceSave E
       (Config \<lparr>matchQuality = q, pc_chain = chain, pc_address = addr,
                 source = Some False, fileName = ''constructor-args.txt''\<rparr>)
       encodedConstructorArgs tr"

section \<open>inject\<close>

definition missingAddress :: string where
  "missingAddress = ''Missing address for submitted sources/metadata''"

definition validateAddresses :: "string option list \<Rightarrow> error + unit" where
  "validateAddresses addresses =
     (if addresses = [] then Inl (Error missingAddress)
      else if None \<in> set addresses then Inl (Error missingAddress)
      else Inr ())"

definition validateChain :: "string \<Rightarrow> error + unit" where
  "validateChain chain =
     (if chain = [] then Inl (Error ''Missing chain name for submitted sources/metadata'')
      else Inr ())"

definition multipleAddresses :: string where
  "multipleAddresses = ''Injector cannot work with multiple addresses if bytecode is provided''"

text \<open>
  The first part of \<open>inject\<close>, up to the point where \<open>match\<close> is assigned: validation,
  completion of the contract, recompilation, and the comparison, either with the
  bytecode the caller supplies or over the candidate addresses. The logger that
  \<open>inject\<close> wraps for the request is only handed to the helpers.
\<close>

definition obtainMatch ::
  "env \<Rightarrow> InputData \<Rightarrow> event list
     \<Rightarrow> (error + CheckedContract \<times> RecompilationResult \<times> Match) \<times> event list" where
  "obtainMatch E inputData tr =
     (case validateAddresses (in_addresses inputData) of
        Inl e \<Rightarrow> (Inl e, tr)
      | Inr _ \<Rightarrow>
     (case validateChain (in_chain inputData) of
        Inl e \<Rightarrow> (Inl e, tr)
      | Inr _ \<Rightarrow>
     (case (if \<not> isValid E (in_contract inputData) then fetchMissing E (in_contract inputData)
            else Inr (in_contract inputData)) of
        Inl e \<Rightarrow> (Inl e, tr)
      | Inr contract \<Rightarrow>
     (case recompile E (c_metadata contract) (c_solidity contract) of
        Inl e \<Rightarrow> (Inl e, tr)
      | Inr compilationResult \<Rightarrow>
          (let chain = in_chain inputData; addresses = map the (in_addresses inputData)
           in if truthy (in_bytecode inputData) then
                (if length addresses \<noteq> 1 then
                   (Inl (Error multipleAddresses),
                    tr @ [Log Err ''[INJECTOR]'' (Some multipleAddresses) None])
                 else
                   (case compareBytecodes E (in_bytecode inputData) (in_creationData inputData)
                           (rc_deployedBytecode compilationResult) (rc_bytecode compilationResult)
                           chain (hd addresses) tr of
                      (Inl e, tr1) \<Rightarrow> (Inl e, tr1)
                    | (Inr compareResult, tr1) \<Rightarrow>
                        (case toChecksumAddress E (hd addresses) of
                           Inl e \<Rightarrow> (Inl e, tr1)
                         | Inr checkedAddress \<Rightarrow>
                             (Inr (contract, compilationResult,
                                   \<lparr>m_address = Some checkedAddress,
                                    m_status = cr_status compareResult,
                                    m_encodedConstructorArgs =
                                      cr_encodedConstructorArgs compareResult,
                                    m_message = None\<rparr>), tr1))))
              else
                (case matchBytecodeToAddress E chain addresses
                        (rc_deployedBytecode compilationResult) (rc_bytecode compilationResult) tr of
                   (Inl e, tr1) \<Rightarrow> (Inl e, tr1)
                 | (Inr match, tr1) \<Rightarrow> (Inr (contract, compilationResult, match), tr1)))))))"

text \<open>
  The second part of \<open>inject\<close>: the storage of a match, or the error for none.
  No \<open>try\<close> encloses the derivation of the path or the calls of the file service:
  what one of them throws ends \<open>inject\<close>.
\<close>

definition storeMatch ::
  "env \<Rightarrow> string \<Rightarrow> CheckedContract \<Rightarrow> RecompilationResult \<Rightarrow> Match \<Rightarrow> event list
     \<Rightarrow> (error + Match) \<times> event list" where
  "storeMatch E chain contract compilationResult match tr =
     (if truthy (m_address match) \<and> m_status match \<noteq> None then
        (let addr = the (m_address match)
         in case getMetadataPathFromCborEncoded E compilationResult addr chain tr of
              (Inl e, tr1) \<Rightarrow> (Inl e, tr1)
            | (Inr metadataPath, tr1) \<Rightarrow>
                (case (if truthy metadataPath then
                         (case fileServiceSave E (Path (the metadataPath))
                                 (rc_metadata compilationResult) tr1 of
                            (Some e, tr2) \<Rightarrow> (Some e, tr2)
                          | (None, tr2) \<Rightarrow> fileServiceDeletePartial E chain addr tr2)
                       else (None, tr1)) of
                   (Some e, tr2) \<Rightarrow> (Inl e, tr2)
                 | (None, tr2) \<Rightarrow>
                     (let match1 = (if truthy metadataPath then match
                                    else match\<lparr>m_status := Some partial\<rparr>);
                          q = statusToMatchQuality (m_status match1)
                      in case storeSources E q chain addr (c_solidity contract) tr2 of
                           (Some e, tr3) \<Rightarrow> (Inl e, tr3)
                         | (None, tr3) \<Rightarrow>
                             (case storeMetadata E q chain addr compilationResult tr3 of
                                (Some e, tr4) \<Rightarrow> (Inl e, tr4)
                              | (None, tr4) \<Rightarrow>
                                  if truthy (m_encodedConstructorArgs match1) then
                                    (case storeConstructorArgs E q chain addr
                                            (the (m_encodedConstructorArgs match1)) tr4 of
                                       (Some e, tr5) \<Rightarrow> (Inl e, tr5)
                                     | (None, tr5) \<Rightarrow> (Inr match1, tr5))
                                  else (Inr match1, tr4)))))
      else
        (let message = (if truthy (m_message match) then the (m_message match)
                        else ''Could not match the deployed and recompiled bytecode.'');
             err = ''Contract name: '' @ c_name contract @ ''. '' @ message
         in (Inl (Error err), tr @ [Log Err ''[INJECT]'' (Some err) None])))"

definition inject :: "env \<Rightarrow> InputData \<Rightarrow> event list \<Rightarrow> (error + Match) \<times> event list" where
  "inject E inputData tr =
     (case obtainMatch E inputData tr of
        (Inl e, tr1) \<Rightarrow> (Inl e, tr1)
      | (Inr (contract, compilationResult, match), tr1) \<Rightarrow>
          storeMatch E (in_chain inputData) contract compilationResult match tr1)"

section \<open>The specification's reading of the resolver and of one candidate\<close>

text \<open>
  The resolver as the specification words it: the strategies in their priority order,
  each gated by its configuration; a strategy that throws is logged and the next one is
  tried, and the first strategy that returns ends the resolution.
\<close>

datatype strategy = Scrape | IndexerQuery | ArchiveSearch

definition configured :: "InjectorChain \<Rightarrow> strategy \<Rightarrow> bool" where
  "configured c s =
     (case s of
        Scrape \<Rightarrow> truthy (contractFetchAddress c) \<and> truthy (txRegex c)
      | IndexerQuery \<Rightarrow> truthy (graphQLFetchAddress c)
      | ArchiveSearch \<Rightarrow> archiveWeb3 c \<noteq> None)"

definition attempt :: "env \<Rightarrow> InjectorChain \<Rightarrow> string \<Rightarrow> strategy \<Rightarrow> error + string" where
  "attempt E c a s =
     (case s of
        Scrape \<Rightarrow>
          getCreationDataByScraping E
            (replace (the (contractFetchAddress c)) ''${ADDRESS}'' a) (the (txRegex c)) (web3 c)
      | IndexerQuery \<Rightarrow> getCreationDataFromGraphQL E (the (graphQLFetchAddress c)) a (web3 c)
      | ArchiveSearch \<Rightarrow> getCreationDataFromArchive E a (the (archiveWeb3 c)))"

definition callEvents :: "InjectorChain \<Rightarrow> string \<Rightarrow> strategy \<Rightarrow> event list" where
  "callEvents c a s =
     (case s of
        Scrape \<Rightarrow>
          [Log Info loc_creation None (Some ''Scraping block explorer''),
           Scraping (replace (the (contractFetchAddress c)) ''${ADDRESS}'' a) (the (txRegex c))
             (web3 c)]
      | IndexerQuery \<Rightarrow> [GraphQL (the (graphQLFetchAddress c)) a (web3 c)]
      | ArchiveSearch \<Rightarrow>
          [Log Info loc_creation None (Some ''Fetching archive data''),
           Archive a (the (archiveWeb3 c))])"

definition failureLog :: "strategy \<Rightarrow> error \<Rightarrow> event" where
  "failureLog s e =
     Log Err loc_creation (Some (errMessage e))
       (case s of
          Scrape \<Rightarrow> Some ''Scraping failed!''
        | IndexerQuery \<Rightarrow> None
        | ArchiveSearch \<Rightarrow> Some ''Archive search failed!'')"

fun resolveInOrder ::
  "env \<Rightarrow> InjectorChain \<Rightarrow> string \<Rightarrow> strategy list \<Rightarrow> (error + string) \<times> event list" where
  "resolveInOrder E c a [] =
     (Inl (Error cannotFetch), [Log Err loc_creation (Some cannotFetch) None])"
| "resolveInOrder E c a (s # ss) =
     (if configured c s then
        (case attempt E c a s of
           Inr v \<Rightarrow> (Inr v, callEvents c a s)
         | Inl e \<Rightarrow>
             (fst (resolveInOrder E c a ss),
              callEvents c a s @ [failureLog s e] @ snd (resolveInOrder E c a ss)))
      else resolveInOrder E c a ss)"

definition allStrategies :: "strategy list" where
  "allStrategies = [Scrape, IndexerQuery, ArchiveSearch]"

text \<open>Every strategy that is configured for the chain throws.\<close>

definition allFail :: "env \<Rightarrow> InjectorChain \<Rightarrow> string \<Rightarrow> bool" where
  "allFail E c a = (\<forall>s \<in> set allStrategies. configured c s \<longrightarrow> isl (attempt E c a s))"

text \<open>
  One candidate of the orchestrator, on its own: the bytecode the chain gives for the
  (checksummed) address, with a failed fetch as \<open>null\<close>; the outcome of its comparison;
  and the events of its iteration of the loop.
\<close>

definition fetchDeployed :: "env \<Rightarrow> InjectorChain \<Rightarrow> string \<Rightarrow> string option" where
  "fetchDeployed E c a = (case getBytecode E (web3 c) a of Inl e \<Rightarrow> None | Inr b \<Rightarrow> Some b)"

definition candidateCompare ::
  "env \<Rightarrow> InjectorChain \<Rightarrow> string \<Rightarrow> string \<Rightarrow> string \<Rightarrow> string
     \<Rightarrow> (error + CompareResult) \<times> event list" where
  "candidateCompare E c chain crb ccb a =
     compareBytecodes E (fetchDeployed E c a) None crb ccb chain a []"

definition candidateStatus ::
  "env \<Rightarrow> InjectorChain \<Rightarrow> string \<Rightarrow> string \<Rightarrow> string \<Rightarrow> string \<Rightarrow> status option" where
  "candidateStatus E c chain crb ccb a =
     (case fst (candidateCompare E c chain crb ccb a) of
        Inl e \<Rightarrow> None
      | Inr cr \<Rightarrow> cr_status cr)"

definition candidateArgs ::
  "env \<Rightarrow> InjectorChain \<Rightarrow> string \<Rightarrow> string \<Rightarrow> string \<Rightarrow> string \<Rightarrow> string option" where
  "candidateArgs E c chain crb ccb a =
     (case fst (candidateCompare E c chain crb ccb a) of
        Inl e \<Rightarrow> None
      | Inr cr \<Rightarrow> cr_encodedConstructorArgs cr)"

definition candidateEvents ::
  "env \<Rightarrow> InjectorChain \<Rightarrow> string \<Rightarrow> string \<Rightarrow> string \<Rightarrow> string \<Rightarrow> event list" where
  "candidateEvents E c chain crb ccb x =
     (case toChecksumAddress E x of
        Inl e \<Rightarrow> []
      | Inr a \<Rightarrow>
          [Log Info ''[MATCH]'' None (Some ''Retrieving contract bytecode address''),
           GetBytecode (web3 c) a] @ snd (candidateCompare E c chain crb ccb a))"

definition chainNameOf :: "InjectorChain \<Rightarrow> string" where
  "chainNameOf c = (if truthy (name c) then the (name c) else ''The chain'')"

text \<open>The diagnostic of a single candidate that did not match.\<close>

definition diagnostic ::
  "env \<Rightarrow> InjectorChain \<Rightarrow> string \<Rightarrow> string \<Rightarrow> string \<Rightarrow> string \<Rightarrow> string" where
  "diagnostic E c chain crb ccb a =
     (if isl (fst (candidateCompare E c chain crb ccb a)) then msgProblems
      else if \<not> truthy (fetchDeployed E c a) then msgUnavailable (chainNameOf c)
      else if fetchDeployed E c a = Some ''0x'' then msgNoContract (chainNameOf c) a
      else msgNoMatch)"

text \<open>The events of the storage of the sources, the metadata and the constructor arguments.\<close>

definition sourceSaves ::
  "MatchQuality option \<Rightarrow> string \<Rightarrow> string \<Rightarrow> (string \<times> string) list \<Rightarrow> event list" where
  "sourceSaves q chain a sources =
     map (\<lambda>(sourcePath, content).
            Save (Config \<lparr>matchQuality = q, pc_chain = chain, pc_address = a,
                           source = Some True, fileName = sanitizePath sourcePath\<rparr>) content)
         sources"

definition metadataSave ::
  "MatchQuality option \<Rightarrow> string \<Rightarrow> string \<Rightarrow> RecompilationResult \<Rightarrow> event" where
  "metadataSave q chain a compilationResult =
     Save (Config \<lparr>matchQuality = q, pc_chain = chain, pc_address = a,
                    source = None, fileName = ''metadata.json''\<rparr>)
          (rc_metadata compilationResult)"

definition constructorArgsSave ::
  "MatchQuality option \<Rightarrow> string \<Rightarrow> string \<Rightarrow> string \<Rightarrow> event" where
  "constructorArgsSave q chain a args =
     Save (Config \<lparr>matchQuality = q, pc_chain = chain, pc_address = a,
                    source = Some False, fileName = ''constructor-args.txt''\<rparr>) args"

text \<open>
  The calls of the file service for a match, in the order in which \<open>inject\<close> makes
  them: with a path, the metadata at the path and the deletion of the partial record;
  then the sources, the metadata and, when present, the constructor arguments.
\<close>

definition storagePlan ::
  "string option \<Rightarrow> MatchQuality option \<Rightarrow> string \<Rightarrow> string \<Rightarrow> CheckedContract
     \<Rightarrow> RecompilationResult \<Rightarrow> string option \<Rightarrow> event list" where
  "storagePlan p q chain a contract compilationResult args =
     (case p of
        None \<Rightarrow> []
      | Some path \<Rightarrow> [Save (Path path) (rc_metadata compilationResult), DeletePartial chain a])
     @ sourceSaves q chain a (c_solidity contract)
     @ [metadataSave q chain a compilationResult]
     @ (if truthy args then [constructorArgsSave q chain a (the args)] else [])"

text \<open>
  What the file service answers to a call, and a sequence of calls made one after the
  other up to the first that throws.
\<close>

definition outcome :: "env \<Rightarrow> event \<Rightarrow> error option" where
  "outcome E ev =
     (case ev of
        Save target content \<Rightarrow> fs_save E target content
      | DeletePartial chain a \<Rightarrow> fs_deletePartial E chain a
      | _ \<Rightarrow> None)"

fun performAll :: "env \<Rightarrow> event list \<Rightarrow> event list \<Rightarrow> error option \<times> event list" where
  "performAll E [] tr = (None, tr)"
| "performAll E (ev # evs) tr =
     (case outcome E ev of
        Some e \<Rightarrow> (Some e, tr @ [ev])
      | None \<Rightarrow> performAll E evs (tr @ [ev]))"

definition stored :: "Match \<Rightarrow> error option \<times> event list \<Rightarrow> (error + Match) \<times> event list" where
  "stored m r = (case fst r of None \<Rightarrow> Inr m | Some e \<Rightarrow> Inl e, snd r)"

text \<open>
  The comparison reaches the creation data: the deployed bytecode is present, and the
  runtime bytecodes differ, also once trimmed, while their trimmed lengths agree.
\<close>

definition reachesCreationData :: "env \<Rightarrow> string \<Rightarrow> string \<Rightarrow> bool" where
  "reachesCreationData E d crb =
     (2 < length d \<and> trimMetadata E d \<noteq> trimMetadata E crb \<and>
      length (trimMetadata E d) = length (trimMetadata E crb))"

section \<open>Example configurations\<close>

text \<open>
  A chain \<open>''1''\<close> whose node answers for four addresses: \<open>0xA\<close> holds the compiled
  runtime code, \<open>0xB\<close> code of the same size that differs, \<open>0xC\<close> nothing, \<open>0xD\<close> code
  of another size; any other address cannot be fetched. The trailer is taken to be
  the last two characters. The three creation-data helpers, the trailer decoder, the
  three retrieval settings and the archive provider are left open. The file service
  performs every call.
\<close>

definition exChain ::
  "string option \<Rightarrow> string option \<Rightarrow> string option \<Rightarrow> string option \<Rightarrow> InjectorChain" where
  "exChain fetchAddress regex graphQL archive =
     \<lparr>web3 = ''rpc'', rpc = [''rpc''], name = Some ''Main'',
      contractFetchAddress = fetchAddress, graphQLFetchAddress = graphQL, txRegex = regex,
      archiveWeb3 = archive\<rparr>"

definition exChainNone :: InjectorChain where
  "exChainNone = exChain None None None None"

definition exChainAll :: InjectorChain where
  "exChainAll = exChain (Some ''x/${ADDRESS}'') (Some ''tx'') (Some ''gql'') (Some ''arch'')"

definition exTrim :: "string \<Rightarrow> string" where
  "exTrim s = take (length s - 2) s"

definition exResult :: RecompilationResult where
  "exResult = \<lparr>rc_bytecode = ''0x60806001bb'', rc_deployedBytecode = ''0x6001bb'',
               rc_metadata = ''{}''\<rparr>"

definition exEnv ::
  "InjectorChain \<Rightarrow> (error + string) \<Rightarrow> (error + string) \<Rightarrow> (error + string)
     \<Rightarrow> (error + (string \<Rightarrow> nat list option)) \<Rightarrow> env" where
  "exEnv c s g a d =
     \<lparr>chains = (\<lambda>i. if i = ''1'' then Some c else None),
      getBytecode = (\<lambda>w x. if x = ''0xA'' then Inr ''0x6001bb''
                            else if x = ''0xB'' then Inr ''0x6002aa''
                            else if x = ''0xC'' then Inr ''0x''
                            else if x = ''0xD'' then Inr ''0x600100aa''
                            else Inl (Error ''timeout'')),
      trimMetadata = exTrim,
      getCreationDataByScraping = (\<lambda>u r w. s),
      getCreationDataFromGraphQL = (\<lambda>u x w. g),
      getCreationDataFromArchive = (\<lambda>x w. a),
      toChecksumAddress = (\<lambda>x. if x = [] then Inl (Error ''invalid address'') else Inr x),
      hexToBytes = (\<lambda>h. Inr []),
      bytesToHex = (\<lambda>b. ''0x'' @ concat (map (\<lambda>n. if n = 1 then ''01'' else ''ff'') b)),
      cborDecode = (\<lambda>b. d),
      toB58String = (\<lambda>b. ''Qm'' @ concat (map (\<lambda>n. if n = 1 then ''1'' else ''z'') b)),
      isValid = (\<lambda>c. True),
      fetchMissing = (\<lambda>c. Inr c),
      recompile = (\<lambda>m s. Inr exResult),
      fs_save = (\<lambda>target content. None),
      fs_deletePartial = (\<lambda>chain x. None)\<rparr>"

definition exDown :: "error + string" where
  "exDown = Inl (Error ''down'')"

definition exTrailer :: "string \<Rightarrow> error + (string \<Rightarrow> nat list option)" where
  "exTrailer k = Inr (\<lambda>key. if key = k then Some [1, 1] else None)"

definition exContract :: CheckedContract where
  "exContract = \<lparr>c_name = ''C'', c_metadata = ''{}'', c_solidity = [(''a b.sol'', ''src'')]\<rparr>"

definition exInput :: "string option list \<Rightarrow> string option \<Rightarrow> string option \<Rightarrow> InputData" where
  "exInput addresses code creation =
     \<lparr>in_chain = ''1'', in_addresses = addresses, in_contract = exContract,
      in_bytecode = code, in_creationData = creation\<rparr>"

text \<open>The same, with a file service that cannot write at a content address.\<close>

definition exDiskFull :: "env \<Rightarrow> env" where
  "exDiskFull E =
     E\<lparr>fs_save := (\<lambda>target content.
                      case target of Path p \<Rightarrow> Some (Error ''disk full'') | Config c \<Rightarrow> None)\<rparr>"

section \<open>The comparator\<close>

lemmas ex_defs = exEnv_def exChain_def exChainNone_def exChainAll_def exTrim_def exResult_def
  exDown_def exTrailer_def exContract_def exInput_def

lemmas run_defs = getCreationData_def scrapeBlock_def graphQLBlock_def archiveBlock_def
  compareBytecodes_def compareCreation_def startsWith_def noMatch_def
  matchBytecodeToAddress_def emptyMatch_def Let_def

lemmas cand_defs = candidateStatus_def candidateArgs_def candidateEvents_def candidateCompare_def
  fetchDeployed_def chainNameOf_def diagnostic_def

lemmas inject_defs = obtainMatch_def validateAddresses_def validateChain_def

lemmas perform_defs = stored_def outcome_def sourceSaves_def metadataSave_def
  constructorArgsSave_def statusToMatchQuality_def

lemmas store_defs = inject_def storeMatch_def getMetadataPathFromCborEncoded_def
  fileServiceSave_def fileServiceDeletePartial_def storeMetadata_def storeConstructorArgs_def
  statusToMatchQuality_def

text \<open>
  A run of \<open>getCreationData\<close> is visible: it throws, or it has left at least one
  event (a log entry or a call of a helper) in the trace.
\<close>

lemma getCreationData_observable:
  "getCreationData E chain a tr = (r, t) \<Longrightarrow> isl r \<or> length tr < length t"
  by (auto simp: getCreationData_def scrapeBlock_def graphQLBlock_def archiveBlock_def Let_def
      split: option.splits sum.splits if_splits prod.splits)

text \<open>
  Claim C1. A deployed bytecode that is absent (or the empty string) or the sentinel
  \<open>0x\<close> gives status none; a deployed bytecode that is a \<open>0x\<close>-prefixed string
  other than the sentinel and equals the compiled runtime bytecode gives status
  perfect with no constructor arguments. Neither case touches the trace.
\<close>

theorem compare_absent_or_equal:
  "(d = None \<or> d = Some [] \<or> d = Some ''0x'' \<longrightarrow>
      compareBytecodes E d cd crb ccb chain a tr = (Inr noMatch, tr)) \<and>
   (prefix ''0x'' crb \<and> crb \<noteq> ''0x'' \<longrightarrow>
      compareBytecodes E (Some crb) cd crb ccb chain a tr =
        (Inr \<lparr>cr_status = Some perfect, cr_encodedConstructorArgs = None\<rparr>, tr))"
  by (auto simp: compareBytecodes_def prefix_def)

theorem compare_absent_or_equal_witness:
  "compareBytecodes (exEnv exChainNone exDown exDown exDown (exTrailer ''ipfs''))
      (Some ''0x'') None ''0x6001bb'' ''0x60806001bb'' ''1'' ''0xC'' [] = (Inr noMatch, []) \<and>
   prefix ''0x'' ''0x6001bb'' \<and> ''0x6001bb'' \<noteq> ''0x'' \<and>
   compareBytecodes (exEnv exChainNone exDown exDown exDown (exTrailer ''ipfs''))
      (Some ''0x6001bb'') None ''0x6001bb'' ''0x60806001bb'' ''1'' ''0xA'' [] =
     (Inr \<lparr>cr_status = Some perfect, cr_encodedConstructorArgs = None\<rparr>, [])"
  using compare_absent_or_equal [of "Some ''0x''"
      "exEnv exChainNone exDown exDown exDown (exTrailer ''ipfs'')" None "''0x6001bb''"
      "''0x60806001bb''" "''1''" "''0xC''" "[]"]
    compare_absent_or_equal [of None
      "exEnv exChainNone exDown exDown exDown (exTrailer ''ipfs'')" None "''0x6001bb''"
      "''0x60806001bb''" "''1''" "''0xA''" "[]"]
  by simp

text \<open>
  Claim C2. When the trimmed runtime bytecodes differ in length, \<open>compareBytecodes\<close>
  returns status none and the trace is unchanged; since a run of \<open>getCreationData\<close>
  that returns would have lengthened the trace, the creation data are not fetched.
  (Bytecodes of different trimmed length are equal neither before nor after trimming.)
\<close>

theorem compare_length_gate:
  assumes "length (trimMetadata E d) \<noteq> length (trimMetadata E crb)"
  shows "compareBytecodes E (Some d) cd crb ccb chain a tr = (Inr noMatch, tr) \<and>
         (\<forall>r t. getCreationData E chain a tr = (r, t) \<longrightarrow> isl r \<or> length tr < length t)"
  using assms getCreationData_observable
  by (auto simp: compareBytecodes_def)

theorem compare_length_gate_witness:
  "length (trimMetadata (exEnv exChainAll (Inr ''0x60806001bb'') exDown exDown (exTrailer ''ipfs''))
             ''0x600100aa'') \<noteq>
   length (trimMetadata (exEnv exChainAll (Inr ''0x60806001bb'') exDown exDown (exTrailer ''ipfs''))
             ''0x6001bb'') \<and>
   compareBytecodes (exEnv exChainAll (Inr ''0x60806001bb'') exDown exDown (exTrailer ''ipfs''))
      (Some ''0x600100aa'') None ''0x6001bb'' ''0x60806001bb'' ''1'' ''0xD'' [] = (Inr noMatch, [])"
proof -
  have h: "length (trimMetadata (exEnv exChainAll (Inr ''0x60806001bb'') exDown exDown (exTrailer ''ipfs''))
             ''0x600100aa'') \<noteq>
   length (trimMetadata (exEnv exChainAll (Inr ''0x60806001bb'') exDown exDown (exTrailer ''ipfs''))
             ''0x6001bb'')"
    by (simp add: exEnv_def exTrim_def)
  from compare_length_gate [OF h] h show ?thesis by blast
qed

lemma indexOfFrom_prefix: "prefix p s \<Longrightarrow> indexOfFrom s p i = int i"
  by (cases s) auto

lemma extract_prefix:
  "prefix p s \<Longrightarrow> extractEncodedConstructorArgs s p = ''0x'' @ drop (length p) s"
  by (simp add: extractEncodedConstructorArgs_def indexOf_def indexOfFrom_prefix slice_def)

text \<open>
  Claim C3. Past the length gate (deployed bytecode present, trimmed codes different
  but of equal length), when the creation data, supplied by the caller or else
  fetched, are present and start with the compiled creation bytecode, the result is
  perfect and the constructor arguments are \<open>0x\<close> followed by what remains of the
  creation data after that prefix.
\<close>

theorem compare_creation_prefix:
  assumes "2 < length d"
    and "trimMetadata E d \<noteq> trimMetadata E crb"
    and "length (trimMetadata E d) = length (trimMetadata E crb)"
    and "cd = Some creationData \<or>
         (\<not> truthy cd \<and> fst (getCreationData E chain a tr) = Inr creationData)"
    and "creationData \<noteq> []"
    and "prefix ccb creationData"
  shows "fst (compareBytecodes E (Some d) cd crb ccb chain a tr) =
           Inr \<lparr>cr_status = Some perfect,
                cr_encodedConstructorArgs = Some (''0x'' @ drop (length ccb) creationData)\<rparr>"
  using assms
  by (auto simp: compareBytecodes_def compareCreation_def startsWith_def extract_prefix
      split: prod.splits sum.splits)

theorem compare_creation_prefix_witness:
  "fst (compareBytecodes (exEnv exChainAll exDown (Inr ''0x60806001bb00ff'') exDown (exTrailer ''ipfs''))
          (Some ''0x6002aa'') None ''0x6001bb'' ''0x60806001bb'' ''1'' ''0xB'' []) =
     Inr \<lparr>cr_status = Some perfect, cr_encodedConstructorArgs = Some ''0x00ff''\<rparr>"
proof -
  let ?E = "exEnv exChainAll exDown (Inr ''0x60806001bb00ff'') exDown (exTrailer ''ipfs'')"
  have h1: "2 < length ''0x6002aa''" by simp
  have h2: "trimMetadata ?E ''0x6002aa'' \<noteq> trimMetadata ?E ''0x6001bb''"
    by (simp add: exEnv_def exTrim_def)
  have h3: "length (trimMetadata ?E ''0x6002aa'') = length (trimMetadata ?E ''0x6001bb'')"
    by (simp add: exEnv_def exTrim_def)
  have h4: "None = Some ''0x60806001bb00ff'' \<or>
      (\<not> truthy None \<and> fst (getCreationData ?E ''1'' ''0xB'' []) = Inr ''0x60806001bb00ff'')"
    by (simp add: getCreationData_def scrapeBlock_def graphQLBlock_def ex_defs)
  have h5: "''0x60806001bb00ff'' \<noteq> []" by simp
  have h6: "prefix ''0x60806001bb'' ''0x60806001bb00ff''" by simp
  from compare_creation_prefix [OF h1 h2 h3 h4 h5 h6] show ?thesis by simp
qed


section \<open>The resolver\<close>

lemma getCreationData_resolve:
  assumes "chains E chain = Some c"
  shows "getCreationData E chain a tr =
           (fst (resolveInOrder E c a allStrategies),
            tr @ snd (resolveInOrder E c a allStrategies))"
  using assms
  by (auto simp: getCreationData_def scrapeBlock_def graphQLBlock_def archiveBlock_def
      allStrategies_def configured_def attempt_def callEvents_def failureLog_def Let_def
      split: option.splits sum.splits)

text \<open>
  Claim C5, as amended. \<open>getCreationData\<close> tries scraping (when a fetch address and a
  transaction pattern are configured), then the GraphQL node (when its address is
  configured), then the archive node (when it is configured). A strategy that throws
  is logged as an error and the next one is tried. The first configured strategy that
  returns ends the run, and what it returned, be it empty, is the result; when none
  returns, the run logs and throws \<open>Cannot fetch creation data\<close>. A timeout is an
  exception of the helper.
\<close>

theorem resolver_first_return_wins:
  assumes "chains E chain = Some c"
  shows "getCreationData E chain a tr =
           (fst (resolveInOrder E c a [Scrape, IndexerQuery, ArchiveSearch]),
            tr @ snd (resolveInOrder E c a [Scrape, IndexerQuery, ArchiveSearch]))"
  using getCreationData_resolve [OF assms] by (simp add: allStrategies_def)

theorem resolver_first_return_wins_witness:
  "getCreationData (exEnv exChainAll exDown exDown (Inr ''0x60806001bb'') (exTrailer ''ipfs''))
      ''1'' ''0xB'' [] =
     (Inr ''0x60806001bb'',
      [Log Info loc_creation None (Some ''Scraping block explorer''),
       Scraping ''x/0xB'' ''tx'' ''rpc'',
       Log Err loc_creation (Some ''down'') (Some ''Scraping failed!''),
       GraphQL ''gql'' ''0xB'' ''rpc'',
       Log Err loc_creation (Some ''down'') None,
       Log Info loc_creation None (Some ''Fetching archive data''),
       Archive ''0xB'' ''arch''])"
proof -
  let ?E = "exEnv exChainAll exDown exDown (Inr ''0x60806001bb'') (exTrailer ''ipfs'')"
  have h: "chains ?E ''1'' = Some exChainAll" by (simp add: exEnv_def)
  have r: "resolveInOrder ?E exChainAll ''0xB'' [Scrape, IndexerQuery, ArchiveSearch] =
     (Inr ''0x60806001bb'',
      [Log Info loc_creation None (Some ''Scraping block explorer''),
       Scraping ''x/0xB'' ''tx'' ''rpc'',
       Log Err loc_creation (Some ''down'') (Some ''Scraping failed!''),
       GraphQL ''gql'' ''0xB'' ''rpc'',
       Log Err loc_creation (Some ''down'') None,
       Log Info loc_creation None (Some ''Fetching archive data''),
       Archive ''0xB'' ''arch''])"
    by (simp add: configured_def attempt_def callEvents_def failureLog_def errMessage_def
        replace_def exEnv_def exChainAll_def exChain_def exDown_def)
  from resolver_first_return_wins [OF h, of "''0xB''" "[]"] r show ?thesis by simp
qed

text \<open>
  Claim C5 as stated fails on an empty result: with all three strategies configured,
  scraping returning the empty string and the GraphQL node holding the creation data,
  the run returns the empty string, logs no failure and never queries the GraphQL node.
\<close>

theorem resolver_empty_result_counterexample:
  "getCreationData (exEnv exChainAll (Inr []) (Inr ''0x60806001bb'') exDown (exTrailer ''ipfs''))
      ''1'' ''0xB'' [] =
     (Inr [],
      [Log Info loc_creation None (Some ''Scraping block explorer''),
       Scraping ''x/0xB'' ''tx'' ''rpc''])"
  by (simp add: getCreationData_def scrapeBlock_def replace_def exEnv_def exChainAll_def
      exChain_def)

text \<open>When every configured strategy throws, so do the resolver and the comparison.\<close>

lemma resolve_allFail:
  "\<forall>s \<in> set ss. configured c s \<longrightarrow> isl (attempt E c a s) \<Longrightarrow>
   fst (resolveInOrder E c a ss) = Inl (Error cannotFetch)"
  by (induction ss) (auto split: sum.splits)

lemma getCreationData_allFail:
  "chains E chain = Some c \<Longrightarrow> allFail E c a \<Longrightarrow>
   fst (getCreationData E chain a tr) = Inl (Error cannotFetch)"
  by (simp add: getCreationData_resolve allFail_def resolve_allFail)

lemma compare_propagates:
  assumes "chains E chain = Some c" and "allFail E c a"
    and "2 < length d"
    and "trimMetadata E d \<noteq> trimMetadata E crb"
    and "length (trimMetadata E d) = length (trimMetadata E crb)"
  shows "fst (compareBytecodes E (Some d) None crb ccb chain a tr) = Inl (Error cannotFetch)"
  using assms getCreationData_allFail [OF assms(1,2), of tr]
  by (auto simp: compareBytecodes_def split: prod.splits sum.splits)

text \<open>
  Claim C4. When no strategy is configured for the chain, or all configured ones fail,
  the comparator is to return status none and not to pass an error to its caller;
  the documentation of \<open>getCreationData\<close> promises \<open>null\<close> for creation data that
  are not found, and \<open>compareBytecodes\<close> tests what it gets for that. The code does
  otherwise: on a chain without any strategy \<open>getCreationData\<close> throws
  \<open>Cannot fetch creation data\<close>, the comparison of a deployed bytecode that differs
  from the compiled one in its trailer-free part of equal length throws that error on,
  and \<open>inject\<close> with a supplied bytecode fails with it.
\<close>

theorem comparator_throws_unavailable:
  "fst (getCreationData (exEnv exChainNone exDown exDown exDown (exTrailer ''ipfs''))
          ''1'' ''0xB'' []) = Inl (Error cannotFetch) \<and>
   fst (compareBytecodes (exEnv exChainNone exDown exDown exDown (exTrailer ''ipfs''))
          (Some ''0x6002aa'') None ''0x6001bb'' ''0x60806001bb'' ''1'' ''0xB'' []) =
     Inl (Error cannotFetch) \<and>
   fst (inject (exEnv exChainNone exDown exDown exDown (exTrailer ''ipfs''))
          (exInput [Some ''0xB''] (Some ''0x6002aa'') None) []) = Inl (Error cannotFetch)"
  by (simp add: inject_def inject_defs run_defs ex_defs)

section \<open>The orchestrator\<close>

lemma getCreationData_trace:
  "getCreationData E chain a tr =
     (fst (getCreationData E chain a []), tr @ snd (getCreationData E chain a []))"
  by (auto simp: getCreationData_def scrapeBlock_def graphQLBlock_def archiveBlock_def Let_def
      split: option.splits sum.splits)

lemma compareBytecodes_trace:
  "compareBytecodes E d cd crb ccb chain a tr =
     (fst (compareBytecodes E d cd crb ccb chain a []),
      tr @ snd (compareBytecodes E d cd crb ccb chain a []))"
proof -
  obtain r t where g: "getCreationData E chain a [] = (r, t)" by (cases "getCreationData E chain a []")
  have g': "getCreationData E chain a tr = (r, tr @ t)"
    using getCreationData_trace [of E chain a tr] g by simp
  show ?thesis
    by (cases d) (auto simp: compareBytecodes_def g g' split: sum.splits)
qed

text \<open>One iteration of the loop, in terms of the candidate on its own.\<close>

lemma matchLoop_step:
  assumes "toChecksumAddress E x = Inr a"
  shows "matchLoop E c chain cn n crb ccb (x # rest) m tr =
     (if candidateStatus E c chain crb ccb a \<noteq> None then
        (Inr \<lparr>m_address = Some a, m_status = candidateStatus E c chain crb ccb a,
              m_encodedConstructorArgs = candidateArgs E c chain crb ccb a,
              m_message = None\<rparr>,
         tr @ candidateEvents E c chain crb ccb x)
      else
        matchLoop E c chain cn n crb ccb rest
          (if n = 1 then
             (if isl (fst (candidateCompare E c chain crb ccb a)) then
                m\<lparr>m_message := Some msgProblems\<rparr>
              else if truthy (m_message m) then m
              else if \<not> truthy (fetchDeployed E c a) then m\<lparr>m_message := Some (msgUnavailable cn)\<rparr>
              else if fetchDeployed E c a = Some ''0x'' then m\<lparr>m_message := Some (msgNoContract cn a)\<rparr>
              else m\<lparr>m_message := Some msgNoMatch\<rparr>)
           else m)
          (tr @ candidateEvents E c chain crb ccb x))"
proof -
  let ?tr1 = "tr @ [Log Info ''[MATCH]'' None (Some ''Retrieving contract bytecode address''),
                    GetBytecode (web3 c) a]"
  obtain r t where cc: "candidateCompare E c chain crb ccb a = (r, t)"
    by (cases "candidateCompare E c chain crb ccb a")
  have cmp: "compareBytecodes E (fetchDeployed E c a) None crb ccb chain a ?tr1 = (r, ?tr1 @ t)"
    using compareBytecodes_trace [of E "fetchDeployed E c a" None crb ccb chain a ?tr1] cc
    by (simp add: candidateCompare_def)
  have fd: "(case getBytecode E (web3 c) a of Inl e \<Rightarrow> None | Inr b \<Rightarrow> Some b) = fetchDeployed E c a"
    by (simp add: fetchDeployed_def)
  show ?thesis
    using assms cmp cc
    by (cases r)
      (simp_all add: Let_def fd candidateStatus_def candidateArgs_def candidateEvents_def
        msgProblems_def)
qed

lemma matchLoop_first_match:
  assumes "\<forall>x \<in> set pre. \<exists>a. toChecksumAddress E x = Inr a \<and> candidateStatus E c chain crb ccb a = None"
    and "toChecksumAddress E x = Inr a"
    and "candidateStatus E c chain crb ccb a = Some st"
  shows "matchLoop E c chain cn n crb ccb (pre @ x # post) m tr =
     (Inr \<lparr>m_address = Some a, m_status = Some st,
           m_encodedConstructorArgs = candidateArgs E c chain crb ccb a, m_message = None\<rparr>,
      tr @ concat (map (candidateEvents E c chain crb ccb) (pre @ [x])))"
  using assms
proof (induction pre arbitrary: m tr)
  case Nil
  then show ?case by (simp add: matchLoop_step [OF Nil(2)] del: matchLoop.simps)
next
  case (Cons y pre)
  from Cons.prems(1) obtain b where b: "toChecksumAddress E y = Inr b"
    "candidateStatus E c chain crb ccb b = None" by auto
  have rest: "\<forall>x \<in> set pre. \<exists>a. toChecksumAddress E x = Inr a \<and> candidateStatus E c chain crb ccb a = None"
    using Cons.prems(1) by simp
  show ?case
    using Cons.IH [OF rest Cons.prems(2,3)] b
    by (simp add: matchLoop_step [OF b(1)] del: matchLoop.simps)
qed

text \<open>
  Claim C6. When every candidate before \<open>x\<close> has a checksummed form and a comparison
  without status, and the comparison of \<open>x\<close> gives a status, then
  \<open>matchBytecodeToAddress\<close> returns the checksummed \<open>x\<close> with that status and with the
  constructor arguments of that comparison, and the events of the run are those of the
  candidates up to \<open>x\<close>, in their order: no bytecode is fetched and nothing is compared
  for a candidate after \<open>x\<close>.
\<close>

theorem first_match_wins:
  assumes "chains E chain = Some c"
    and "\<forall>x \<in> set pre. \<exists>a. toChecksumAddress E x = Inr a \<and> candidateStatus E c chain crb ccb a = None"
    and "toChecksumAddress E x = Inr a"
    and "candidateStatus E c chain crb ccb a = Some st"
  shows "matchBytecodeToAddress E chain (pre @ x # post) crb ccb tr =
     (Inr \<lparr>m_address = Some a, m_status = Some st,
           m_encodedConstructorArgs = candidateArgs E c chain crb ccb a, m_message = None\<rparr>,
      tr @ concat (map (candidateEvents E c chain crb ccb) (pre @ [x])))"
  using assms(1) matchLoop_first_match [OF assms(2-4)]
  by (simp add: matchBytecodeToAddress_def Let_def)

theorem first_match_wins_witness:
  "matchBytecodeToAddress (exEnv exChainNone exDown exDown exDown (exTrailer ''ipfs''))
      ''1'' [''0xD'', ''0xA'', ''0xB''] ''0x6001bb'' ''0x60806001bb'' [] =
     (Inr \<lparr>m_address = Some ''0xA'', m_status = Some perfect,
           m_encodedConstructorArgs = None, m_message = None\<rparr>,
      [Log Info ''[MATCH]'' None (Some ''Retrieving contract bytecode address''),
       GetBytecode ''rpc'' ''0xD'',
       Log Info ''[MATCH]'' None (Some ''Retrieving contract bytecode address''),
       GetBytecode ''rpc'' ''0xA''])"
proof -
  let ?E = "exEnv exChainNone exDown exDown exDown (exTrailer ''ipfs'')"
  have h1: "chains ?E ''1'' = Some exChainNone" by (simp add: exEnv_def)
  have h2: "\<forall>x \<in> set [''0xD'']. \<exists>a. toChecksumAddress ?E x = Inr a \<and>
      candidateStatus ?E exChainNone ''1'' ''0x6001bb'' ''0x60806001bb'' a = None"
    by (simp add: cand_defs run_defs ex_defs)
  have h3: "toChecksumAddress ?E ''0xA'' = Inr ''0xA''" by (simp add: exEnv_def)
  have h4: "candidateStatus ?E exChainNone ''1'' ''0x6001bb'' ''0x60806001bb'' ''0xA'' = Some perfect"
    by (simp add: cand_defs run_defs ex_defs)
  have ev: "concat (map (candidateEvents ?E exChainNone ''1'' ''0x6001bb'' ''0x60806001bb'')
              ([''0xD''] @ [''0xA''])) =
      [Log Info ''[MATCH]'' None (Some ''Retrieving contract bytecode address''),
       GetBytecode ''rpc'' ''0xD'',
       Log Info ''[MATCH]'' None (Some ''Retrieving contract bytecode address''),
       GetBytecode ''rpc'' ''0xA'']"
    by (simp add: cand_defs run_defs ex_defs)
  have ar: "candidateArgs ?E exChainNone ''1'' ''0x6001bb'' ''0x60806001bb'' ''0xA'' = None"
    by (simp add: cand_defs run_defs ex_defs)
  from first_match_wins [OF h1 h2 h3 h4, of "[''0xB'']" "[]"] ev ar show ?thesis by simp
qed





section \<open>Content addresses and storage\<close>

text \<open>
  Claim C8, as amended. When the bytes of the compiled deployed bytecode are obtained
  and their trailer is decoded, the keys are looked up in the order \<open>bzzr0\<close>,
  \<open>bzzr1\<close>, \<open>ipfs\<close>, and the first one present gives \<open>/swarm/bzzr0/<hex>\<close>,
  \<open>/swarm/bzzr1/<hex>\<close> or \<open>/ipfs/<base58 multihash>\<close>, with nothing logged; when
  none of them is present the derivation logs an error and returns null, and raises
  nothing. When the conversion of the hex string or the decoding of the trailer throws,
  that error is thrown on to the caller.
\<close>

theorem metadata_path_priority:
  "(hexToBytes E (rc_deployedBytecode cr) = Inr bytes \<and> cborDecode E bytes = Inr cborData \<longrightarrow>
      (\<forall>h. cborData ''bzzr0'' = Some h \<longrightarrow>
         getMetadataPathFromCborEncoded E cr a chain tr =
           (Inr (Some (''/swarm/bzzr0/'' @ drop 2 (bytesToHex E h))), tr)) \<and>
      (\<forall>h. cborData ''bzzr0'' = None \<and> cborData ''bzzr1'' = Some h \<longrightarrow>
         getMetadataPathFromCborEncoded E cr a chain tr =
           (Inr (Some (''/swarm/bzzr1/'' @ drop 2 (bytesToHex E h))), tr)) \<and>
      (\<forall>h. cborData ''bzzr0'' = None \<and> cborData ''bzzr1'' = None \<and> cborData ''ipfs'' = Some h \<longrightarrow>
         getMetadataPathFromCborEncoded E cr a chain tr =
           (Inr (Some (''/ipfs/'' @ toB58String E h)), tr)) \<and>
      (cborData ''bzzr0'' = None \<and> cborData ''bzzr1'' = None \<and> cborData ''ipfs'' = None \<longrightarrow>
         getMetadataPathFromCborEncoded E cr a chain tr =
           (Inr None,
            tr @ [Log Err ''[INJECTOR:GET_METADATA_PATH]''
                    (Some ''No metadata hash in cbor encoded data.'') None]))) \<and>
   (hexToBytes E (rc_deployedBytecode cr) = Inl e \<longrightarrow>
      getMetadataPathFromCborEncoded E cr a chain tr = (Inl e, tr)) \<and>
   (hexToBytes E (rc_deployedBytecode cr) = Inr bytes \<and> cborDecode E bytes = Inl e \<longrightarrow>
      getMetadataPathFromCborEncoded E cr a chain tr = (Inl e, tr))"
  by (simp add: getMetadataPathFromCborEncoded_def slice_def)

theorem metadata_path_priority_witness:
  "getMetadataPathFromCborEncoded
      (exEnv exChainNone exDown exDown exDown
         (Inr (\<lambda>k. if k = ''bzzr1'' \<or> k = ''ipfs'' then Some [1, 1] else None)))
      exResult ''0xA'' ''1'' [] = (Inr (Some ''/swarm/bzzr1/0101''), []) \<and>
   getMetadataPathFromCborEncoded
      (exEnv exChainNone exDown exDown exDown (exTrailer ''ipfs''))
      exResult ''0xA'' ''1'' [] = (Inr (Some ''/ipfs/Qm11''), []) \<and>
   getMetadataPathFromCborEncoded
      (exEnv exChainNone exDown exDown exDown (exTrailer ''solc''))
      exResult ''0xA'' ''1'' [] =
     (Inr None,
      [Log Err ''[INJECTOR:GET_METADATA_PATH]''
         (Some ''No metadata hash in cbor encoded data.'') None])"
proof -
  let ?d = "\<lambda>k. if k = ''bzzr1'' \<or> k = ''ipfs'' then Some [1, 1::nat] else None"
  let ?E1 = "exEnv exChainNone exDown exDown exDown (Inr ?d)"
  let ?E2 = "exEnv exChainNone exDown exDown exDown (exTrailer ''ipfs'')"
  let ?E3 = "exEnv exChainNone exDown exDown exDown (exTrailer ''solc'')"
  have 1: "getMetadataPathFromCborEncoded ?E1 exResult ''0xA'' ''1'' [] =
      (Inr (Some (''/swarm/bzzr1/'' @ drop 2 (bytesToHex ?E1 [1, 1]))), [])"
    using metadata_path_priority [of ?E1 exResult "[]" ?d "''0xA''" "''1''" "[]"]
    by (simp add: exEnv_def)
  have 2: "getMetadataPathFromCborEncoded ?E2 exResult ''0xA'' ''1'' [] =
      (Inr (Some (''/ipfs/'' @ toB58String ?E2 [1, 1])), [])"
    using metadata_path_priority [of ?E2 exResult "[]"
        "\<lambda>key. if key = ''ipfs'' then Some [1, 1] else None" "''0xA''" "''1''" "[]"]
    by (simp add: exEnv_def exTrailer_def)
  have 3: "getMetadataPathFromCborEncoded ?E3 exResult ''0xA'' ''1'' [] =
     (Inr None,
      [Log Err ''[INJECTOR:GET_METADATA_PATH]''
         (Some ''No metadata hash in cbor encoded data.'') None])"
    using metadata_path_priority [of ?E3 exResult "[]"
        "\<lambda>key. if key = ''solc'' then Some [1, 1] else None" "''0xA''" "''1''" "[]"]
    by (simp add: exEnv_def exTrailer_def)
  from 1 2 3 show ?thesis by (simp add: exEnv_def)
qed

text \<open>
  Claim C8 as stated fails when the decoding fails by throwing: the derivation does not
  return null, it raises the decoder's error.
\<close>

theorem metadata_decoding_fails_counterexample:
  "getMetadataPathFromCborEncoded
      (exEnv exChainNone exDown exDown exDown (Inl (Error ''Unexpected end of CBOR data'')))
      exResult ''0xA'' ''1'' [] = (Inl (Error ''Unexpected end of CBOR data''), [])"
  by (simp add: getMetadataPathFromCborEncoded_def exEnv_def)

lemma metadata_path_nonempty:
  "getMetadataPathFromCborEncoded E cr a chain tr = (Inr (Some p), t) \<Longrightarrow> p \<noteq> []"
  by (auto simp: getMetadataPathFromCborEncoded_def split: sum.splits option.splits)

text \<open>
  The storage part of \<open>inject\<close> makes the calls of the plan one after the other and
  ends with the error of the first call that throws.
\<close>

lemma performAll_append:
  "performAll E (xs @ ys) tr =
     (case performAll E xs tr of (Some e, t) \<Rightarrow> (Some e, t) | (None, t) \<Rightarrow> performAll E ys t)"
  by (induction xs arbitrary: tr) (auto split: option.splits)

lemma performAll_accepted:
  "\<forall>ev \<in> set evs. outcome E ev = None \<Longrightarrow> performAll E evs tr = (None, tr @ evs)"
  by (induction evs arbitrary: tr) auto

lemma storeSources_perform:
  "storeSources E q chain a sources tr = performAll E (sourceSaves q chain a sources) tr"
  by (induction sources arbitrary: tr)
    (auto simp: sourceSaves_def fileServiceSave_def outcome_def split: option.splits)

lemma storeMatch_perform:
  assumes "m_address m = Some a" and "a \<noteq> []" and "m_status m \<noteq> None"
    and "getMetadataPathFromCborEncoded E cr a chain tr = (Inr p, tr1)"
  shows "storeMatch E chain contract cr m tr =
     stored (if p = None then m\<lparr>m_status := Some partial\<rparr> else m)
       (performAll E
          (storagePlan p (statusToMatchQuality (if p = None then Some partial else m_status m))
             chain a contract cr (m_encodedConstructorArgs m)) tr1)"
proof (cases p)
  case None
  with assms show ?thesis
    by (auto simp: storeMatch_def Let_def storeSources_perform storeMetadata_def
        storeConstructorArgs_def metadataSave_def constructorArgsSave_def storagePlan_def
        performAll_append fileServiceSave_def outcome_def stored_def
        split: prod.splits option.splits)
next
  case (Some path)
  with assms(4) have "path \<noteq> []" by (auto dest: metadata_path_nonempty)
  with Some assms show ?thesis
    by (auto simp: storeMatch_def Let_def storeSources_perform storeMetadata_def
        storeConstructorArgs_def metadataSave_def constructorArgsSave_def storagePlan_def
        performAll_append fileServiceSave_def fileServiceDeletePartial_def outcome_def stored_def
        split: prod.splits option.splits)
qed

lemma storeMatch_throws:
  assumes "m_address m = Some a" and "a \<noteq> []" and "m_status m \<noteq> None"
    and "getMetadataPathFromCborEncoded E cr a chain tr = (Inl e, tr1)"
  shows "storeMatch E chain contract cr m tr = (Inl e, tr1)"
  using assms by (simp add: storeMatch_def)

text \<open>
  Claim C9, as amended. Let \<open>inject\<close> obtain a match with an address and a status.
  When the derivation of the path throws, \<open>inject\<close> throws that error: the status is
  not downgraded and nothing is stored. When a path is derived, the metadata are saved
  at that path, the partial record of the chain and address is deleted, and the match
  keeps its status; when the derivation returns null, the status becomes partial
  whatever the comparison gave. Then the sources, the metadata and, when present, the
  constructor arguments are saved, each tagged with the quality of the resulting
  status, the chain and the address. The calls of the file service are made in this
  order; the first that throws ends \<open>inject\<close> with its error, and when none throws
  the match is returned.
\<close>

theorem inject_storage:
  assumes "obtainMatch E inputData tr = (Inr (contract, cr, m), tr1)"
    and "m_address m = Some a" and "a \<noteq> []" and "m_status m = Some st"
  shows "(\<forall>e t. getMetadataPathFromCborEncoded E cr a (in_chain inputData) tr1 = (Inl e, t) \<longrightarrow>
            inject E inputData tr = (Inl e, t)) \<and>
         (\<forall>path t. getMetadataPathFromCborEncoded E cr a (in_chain inputData) tr1 =
                     (Inr (Some path), t) \<longrightarrow>
            inject E inputData tr =
              stored m
                (performAll E
                   ([Save (Path path) (rc_metadata cr), DeletePartial (in_chain inputData) a]
                    @ sourceSaves (statusToMatchQuality (Some st)) (in_chain inputData) a
                        (c_solidity contract)
                    @ [metadataSave (statusToMatchQuality (Some st)) (in_chain inputData) a cr]
                    @ (if truthy (m_encodedConstructorArgs m) then
                         [constructorArgsSave (statusToMatchQuality (Some st))
                            (in_chain inputData) a (the (m_encodedConstructorArgs m))]
                       else [])) t)) \<and>
         (\<forall>t. getMetadataPathFromCborEncoded E cr a (in_chain inputData) tr1 = (Inr None, t) \<longrightarrow>
            inject E inputData tr =
              stored (m\<lparr>m_status := Some partial\<rparr>)
                (performAll E
                   (sourceSaves (Some partial_quality) (in_chain inputData) a (c_solidity contract)
                    @ [metadataSave (Some partial_quality) (in_chain inputData) a cr]
                    @ (if truthy (m_encodedConstructorArgs m) then
                         [constructorArgsSave (Some partial_quality) (in_chain inputData) a
                            (the (m_encodedConstructorArgs m))]
                       else [])) t))"
proof -
  have st: "m_status m \<noteq> None" using assms(4) by simp
  have inj: "inject E inputData tr = storeMatch E (in_chain inputData) contract cr m tr1"
    using assms(1) by (simp add: inject_def)
  show ?thesis
  proof (intro conjI allI impI)
    fix e t assume "getMetadataPathFromCborEncoded E cr a (in_chain inputData) tr1 = (Inl e, t)"
    from storeMatch_throws [OF assms(2,3) st this] inj
    show "inject E inputData tr = (Inl e, t)" by simp
  next
    fix path t
    assume "getMetadataPathFromCborEncoded E cr a (in_chain inputData) tr1 = (Inr (Some path), t)"
    from storeMatch_perform [OF assms(2,3) st this, of contract] inj assms(4)
    show "inject E inputData tr =
              stored m
                (performAll E
                   ([Save (Path path) (rc_metadata cr), DeletePartial (in_chain inputData) a]
                    @ sourceSaves (statusToMatchQuality (Some st)) (in_chain inputData) a
                        (c_solidity contract)
                    @ [metadataSave (statusToMatchQuality (Some st)) (in_chain inputData) a cr]
                    @ (if truthy (m_encodedConstructorArgs m) then
                         [constructorArgsSave (statusToMatchQuality (Some st))
                            (in_chain inputData) a (the (m_encodedConstructorArgs m))]
                       else [])) t)"
      by (simp add: storagePlan_def)
  next
    fix t
    assume "getMetadataPathFromCborEncoded E cr a (in_chain inputData) tr1 = (Inr None, t)"
    from storeMatch_perform [OF assms(2,3) st this, of contract] inj
    show "inject E inputData tr =
              stored (m\<lparr>m_status := Some partial\<rparr>)
                (performAll E
                   (sourceSaves (Some partial_quality) (in_chain inputData) a (c_solidity contract)
                    @ [metadataSave (Some partial_quality) (in_chain inputData) a cr]
                    @ (if truthy (m_encodedConstructorArgs m) then
                         [constructorArgsSave (Some partial_quality) (in_chain inputData) a
                            (the (m_encodedConstructorArgs m))]
                       else [])) t)"
      by (simp add: storagePlan_def statusToMatchQuality_def)
  qed
qed

theorem inject_storage_witness:
  "inject (exEnv exChainNone exDown exDown exDown (exTrailer ''ipfs''))
      (exInput [Some ''0xA''] None None) [] =
     (Inr \<lparr>m_address = Some ''0xA'', m_status = Some perfect,
           m_encodedConstructorArgs = None, m_message = None\<rparr>,
      [Log Info ''[MATCH]'' None (Some ''Retrieving contract bytecode address''),
       GetBytecode ''rpc'' ''0xA'',
       Save (Path ''/ipfs/Qm11'') ''{}'',
       DeletePartial ''1'' ''0xA'',
       Save (Config \<lparr>matchQuality = Some full, pc_chain = ''1'', pc_address = ''0xA'',
                      source = Some True, fileName = ''a_b.sol''\<rparr>) ''src'',
       Save (Config \<lparr>matchQuality = Some full, pc_chain = ''1'', pc_address = ''0xA'',
                      source = None, fileName = ''metadata.json''\<rparr>) ''{}'']) \<and>
   inject (exEnv exChainNone exDown exDown exDown (exTrailer ''solc''))
      (exInput [Some ''0xA''] None None) [] =
     (Inr \<lparr>m_address = Some ''0xA'', m_status = Some partial,
           m_encodedConstructorArgs = None, m_message = None\<rparr>,
      [Log Info ''[MATCH]'' None (Some ''Retrieving contract bytecode address''),
       GetBytecode ''rpc'' ''0xA'',
       Log Err ''[INJECTOR:GET_METADATA_PATH]'' (Some ''No metadata hash in cbor encoded data.'') None,
       Save (Config \<lparr>matchQuality = Some partial_quality, pc_chain = ''1'', pc_address = ''0xA'',
                      source = Some True, fileName = ''a_b.sol''\<rparr>) ''src'',
       Save (Config \<lparr>matchQuality = Some partial_quality, pc_chain = ''1'', pc_address = ''0xA'',
                      source = None, fileName = ''metadata.json''\<rparr>) ''{}'']) \<and>
   inject (exDiskFull (exEnv exChainNone exDown exDown exDown (exTrailer ''ipfs'')))
      (exInput [Some ''0xA''] None None) [] =
     (Inl (Error ''disk full''),
      [Log Info ''[MATCH]'' None (Some ''Retrieving contract bytecode address''),
       GetBytecode ''rpc'' ''0xA'',
       Save (Path ''/ipfs/Qm11'') ''{}''])"
proof -
  let ?E1 = "exEnv exChainNone exDown exDown exDown (exTrailer ''ipfs'')"
  let ?E2 = "exEnv exChainNone exDown exDown exDown (exTrailer ''solc'')"
  let ?E3 = "exDiskFull ?E1"
  let ?I = "exInput [Some ''0xA''] None None"
  let ?m = "\<lparr>m_address = Some ''0xA'', m_status = Some perfect,
           m_encodedConstructorArgs = None, m_message = None\<rparr>"
  let ?t = "[Log Info ''[MATCH]'' None (Some ''Retrieving contract bytecode address''),
       GetBytecode ''rpc'' ''0xA'']"
  have o1: "obtainMatch ?E1 ?I [] = (Inr (exContract, exResult, ?m), ?t)"
    by (simp add: inject_defs run_defs ex_defs)
  have o2: "obtainMatch ?E2 ?I [] = (Inr (exContract, exResult, ?m), ?t)"
    by (simp add: inject_defs run_defs ex_defs)
  have o3: "obtainMatch ?E3 ?I [] = (Inr (exContract, exResult, ?m), ?t)"
    by (simp add: inject_defs run_defs ex_defs exDiskFull_def)
  have a: "m_address ?m = Some ''0xA''" "''0xA'' \<noteq> []" "m_status ?m = Some perfect"
    by simp_all
  have p1: "getMetadataPathFromCborEncoded ?E1 exResult ''0xA'' (in_chain ?I) ?t =
      (Inr (Some ''/ipfs/Qm11''), ?t)"
    by (simp add: getMetadataPathFromCborEncoded_def ex_defs)
  have p2: "getMetadataPathFromCborEncoded ?E2 exResult ''0xA'' (in_chain ?I) ?t =
      (Inr None, ?t @ [Log Err ''[INJECTOR:GET_METADATA_PATH]''
                         (Some ''No metadata hash in cbor encoded data.'') None])"
    by (simp add: getMetadataPathFromCborEncoded_def ex_defs)
  have p3: "getMetadataPathFromCborEncoded ?E3 exResult ''0xA'' (in_chain ?I) ?t =
      (Inr (Some ''/ipfs/Qm11''), ?t)"
    by (simp add: getMetadataPathFromCborEncoded_def ex_defs exDiskFull_def)
  have s: "sanitizePath ''a b.sol'' = ''a_b.sol''"
    by (simp add: sanitizePath_def allowedChar_def dotsEnd_def)
  have 1: "inject ?E1 ?I [] =
     (Inr ?m, ?t @ [Save (Path ''/ipfs/Qm11'') ''{}'', DeletePartial ''1'' ''0xA'',
       Save (Config \<lparr>matchQuality = Some full, pc_chain = ''1'', pc_address = ''0xA'',
                      source = Some True, fileName = ''a_b.sol''\<rparr>) ''src'',
       Save (Config \<lparr>matchQuality = Some full, pc_chain = ''1'', pc_address = ''0xA'',
                      source = None, fileName = ''metadata.json''\<rparr>) ''{}''])"
    using inject_storage [OF o1 a] p1 s by (simp add: perform_defs ex_defs)
  have 2: "inject ?E2 ?I [] =
     (Inr (?m\<lparr>m_status := Some partial\<rparr>),
      ?t @ [Log Err ''[INJECTOR:GET_METADATA_PATH]'' (Some ''No metadata hash in cbor encoded data.'') None,
       Save (Config \<lparr>matchQuality = Some partial_quality, pc_chain = ''1'', pc_address = ''0xA'',
                      source = Some True, fileName = ''a_b.sol''\<rparr>) ''src'',
       Save (Config \<lparr>matchQuality = Some partial_quality, pc_chain = ''1'', pc_address = ''0xA'',
                      source = None, fileName = ''metadata.json''\<rparr>) ''{}''])"
    using inject_storage [OF o2 a] p2 s by (simp add: perform_defs ex_defs)
  have 3: "inject ?E3 ?I [] =
     (Inl (Error ''disk full''), ?t @ [Save (Path ''/ipfs/Qm11'') ''{}''])"
    using inject_storage [OF o3 a] p3 by (simp add: perform_defs ex_defs exDiskFull_def)
  from 1 2 3 show ?thesis by simp
qed

text \<open>
  Claim C9 as stated fails when the decoder throws: \<open>inject\<close> has obtained a match
  with status perfect, no path is derived, and yet the status is not downgraded and
  neither sources nor metadata are stored; \<open>inject\<close> ends with the decoder's error.
\<close>

theorem inject_derivation_throws_counterexample:
  "obtainMatch (exEnv exChainNone exDown exDown exDown (Inl (Error ''Unexpected end of CBOR data'')))
      (exInput [Some ''0xA''] None None) [] =
     (Inr (exContract, exResult,
           \<lparr>m_address = Some ''0xA'', m_status = Some perfect,
            m_encodedConstructorArgs = None, m_message = None\<rparr>),
      [Log Info ''[MATCH]'' None (Some ''Retrieving contract bytecode address''),
       GetBytecode ''rpc'' ''0xA'']) \<and>
   inject (exEnv exChainNone exDown exDown exDown (Inl (Error ''Unexpected end of CBOR data'')))
      (exInput [Some ''0xA''] None None) [] =
     (Inl (Error ''Unexpected end of CBOR data''),
      [Log Info ''[MATCH]'' None (Some ''Retrieving contract bytecode address''),
       GetBytecode ''rpc'' ''0xA''])"
  by (simp add: inject_def storeMatch_def getMetadataPathFromCborEncoded_def inject_defs
      run_defs ex_defs)

text \<open>Creation data that are exactly the compiled creation bytecode.\<close>

lemma compare_exact_creation:
  assumes "reachesCreationData E d crb" and "ccb \<noteq> []"
    and "cd = Some ccb \<or> (\<not> truthy cd \<and> fst (getCreationData E chain x []) = Inr ccb)"
  shows "fst (compareBytecodes E (Some d) cd crb ccb chain x tr) =
           Inr \<lparr>cr_status = Some perfect, cr_encodedConstructorArgs = Some ''0x''\<rparr>"
proof -
  have "fst (getCreationData E chain x tr) = fst (getCreationData E chain x [])"
    using getCreationData_trace [of E chain x tr] by simp
  with assms show ?thesis
    by (auto simp: reachesCreationData_def compareBytecodes_def compareCreation_def
        startsWith_def extract_prefix split: prod.splits sum.splits)
qed

text \<open>What the loop returns is its starting match or the outcome of one candidate.\<close>

lemma matchLoop_result:
  assumes "matchLoop E c chain cn n crb ccb xs m0 tr = (Inr m, t)"
  shows "m_address m = m_address m0 \<or>
         (\<exists>a. m = \<lparr>m_address = Some a, m_status = candidateStatus E c chain crb ccb a,
                    m_encodedConstructorArgs = candidateArgs E c chain crb ccb a,
                    m_message = None\<rparr>)"
  using assms
proof (induction xs arbitrary: m0 tr)
  case Nil
  then show ?case by simp
next
  case (Cons x xs)
  show ?case
  proof (cases "toChecksumAddress E x")
    case (Inl e)
    with Cons.prems show ?thesis by simp
  next
    case (Inr a)
    show ?thesis
    proof (cases "candidateStatus E c chain crb ccb a")
      case None
      with Cons.prems Inr obtain m1 where
        "matchLoop E c chain cn n crb ccb xs m1 (tr @ candidateEvents E c chain crb ccb x) = (Inr m, t)"
        and "m_address m1 = m_address m0"
        by (auto simp add: matchLoop_step [OF Inr] simp del: matchLoop.simps split: if_splits)
      with Cons.IH show ?thesis by fastforce
    next
      case (Some st)
      with Cons.prems Inr show ?thesis
        by (auto simp add: matchLoop_step [OF Inr] simp del: matchLoop.simps)
    qed
  qed
qed

lemma obtainMatch_known_bytecode:
  assumes "obtainMatch E inputData tr = (Inr (contract, cr, m), tr1)"
    and "in_bytecode inputData = Some d" and "d \<noteq> []"
  shows "\<exists>res a. compareBytecodes E (Some d) (in_creationData inputData)
                 (rc_deployedBytecode cr) (rc_bytecode cr) (in_chain inputData)
                 (the (hd (in_addresses inputData))) tr = (Inr res, tr1) \<and>
               m = \<lparr>m_address = Some a, m_status = cr_status res,
                    m_encodedConstructorArgs = cr_encodedConstructorArgs res,
                    m_message = None\<rparr>"
  using assms
  by (cases "in_addresses inputData")
    (auto simp: obtainMatch_def Let_def split: sum.splits prod.splits if_splits)

lemma obtainMatch_candidates:
  assumes "obtainMatch E inputData tr = (Inr (contract, cr, m), tr1)"
    and "\<not> truthy (in_bytecode inputData)"
    and "chains E (in_chain inputData) = Some c"
    and "m_address m = Some a"
  shows "m = \<lparr>m_address = Some a,
              m_status = candidateStatus E c (in_chain inputData) (rc_deployedBytecode cr)
                           (rc_bytecode cr) a,
              m_encodedConstructorArgs = candidateArgs E c (in_chain inputData)
                           (rc_deployedBytecode cr) (rc_bytecode cr) a,
              m_message = None\<rparr>"
proof -
  from assms(1,2,3) obtain n cn xs where
    "matchLoop E c (in_chain inputData) cn n (rc_deployedBytecode cr) (rc_bytecode cr) xs
       emptyMatch tr = (Inr m, tr1)"
    by (auto simp: obtainMatch_def matchBytecodeToAddress_def Let_def
        split: sum.splits prod.splits if_splits)
  from matchLoop_result [OF this] assms(4) show ?thesis
    by (auto simp: emptyMatch_def)
qed

text \<open>
  Claim C10, as amended. When the comparison reaches the creation data (deployed
  bytecode present, runtime bytecodes different also once trimmed, trimmed lengths
  equal) and the creation data, supplied or else fetched, equal the nonempty compiled
  creation bytecode, the comparator returns perfect with the constructor arguments
  \<open>0x\<close>. When that is the comparison by which \<open>inject\<close> obtains its match, be it of
  the bytecode the caller supplies or of the bytecode fetched for the matched
  candidate, and the derivation of the path returns and the file service performs the
  calls, \<open>inject\<close> returns the match with the arguments \<open>0x\<close> and the last thing it
  does is to save the file \<open>constructor-args.txt\<close> with the content \<open>0x\<close>, the
  encoding of no bytes, under the quality of the match.
\<close>

theorem empty_constructor_args_stored:
  "(reachesCreationData E d crb \<and> ccb \<noteq> [] \<and>
    (cd = Some ccb \<or> (\<not> truthy cd \<and> fst (getCreationData E chain x tr) = Inr ccb)) \<longrightarrow>
      fst (compareBytecodes E (Some d) cd crb ccb chain x tr) =
        Inr \<lparr>cr_status = Some perfect, cr_encodedConstructorArgs = Some ''0x''\<rparr>) \<and>
   (obtainMatch E inputData tr = (Inr (contract, cr, m), tr1) \<and>
    m_address m = Some a \<and> a \<noteq> [] \<and> rc_bytecode cr \<noteq> [] \<and>
    reachesCreationData E d (rc_deployedBytecode cr) \<and>
    (in_bytecode inputData = Some d \<and>
       (in_creationData inputData = Some (rc_bytecode cr) \<or>
        (\<not> truthy (in_creationData inputData) \<and>
         fst (getCreationData E (in_chain inputData) (the (hd (in_addresses inputData))) []) =
           Inr (rc_bytecode cr))) \<or>
     \<not> truthy (in_bytecode inputData) \<and> chains E (in_chain inputData) = Some c \<and>
       fetchDeployed E c a = Some d \<and>
       fst (getCreationData E (in_chain inputData) a []) = Inr (rc_bytecode cr)) \<and>
    getMetadataPathFromCborEncoded E cr a (in_chain inputData) tr1 = (Inr p, tr2) \<and>
    q = statusToMatchQuality (if p = None then Some partial else Some perfect) \<and>
    (\<forall>ev \<in> set (storagePlan p q (in_chain inputData) a contract cr (Some ''0x'')).
       outcome E ev = None) \<longrightarrow>
      inject E inputData tr =
        (Inr \<lparr>m_address = Some a,
              m_status = (if p = None then Some partial else Some perfect),
              m_encodedConstructorArgs = Some ''0x'', m_message = None\<rparr>,
         tr2 @ storagePlan p q (in_chain inputData) a contract cr (Some ''0x'')) \<and>
      last (storagePlan p q (in_chain inputData) a contract cr (Some ''0x'')) =
        Save (Config \<lparr>matchQuality = q, pc_chain = in_chain inputData, pc_address = a,
                       source = Some False, fileName = ''constructor-args.txt''\<rparr>) ''0x'')"
proof (intro conjI impI)
  assume "reachesCreationData E d crb \<and> ccb \<noteq> [] \<and>
    (cd = Some ccb \<or> (\<not> truthy cd \<and> fst (getCreationData E chain x tr) = Inr ccb))"
  moreover have "fst (getCreationData E chain x tr) = fst (getCreationData E chain x [])"
    using getCreationData_trace [of E chain x tr] by simp
  ultimately show "fst (compareBytecodes E (Some d) cd crb ccb chain x tr) =
        Inr \<lparr>cr_status = Some perfect, cr_encodedConstructorArgs = Some ''0x''\<rparr>"
    by (intro compare_exact_creation) auto
next
  let ?chain = "in_chain inputData"
  let ?crb = "rc_deployedBytecode cr" and ?ccb = "rc_bytecode cr"
  assume h: "obtainMatch E inputData tr = (Inr (contract, cr, m), tr1) \<and>
    m_address m = Some a \<and> a \<noteq> [] \<and> rc_bytecode cr \<noteq> [] \<and>
    reachesCreationData E d (rc_deployedBytecode cr) \<and>
    (in_bytecode inputData = Some d \<and>
       (in_creationData inputData = Some (rc_bytecode cr) \<or>
        (\<not> truthy (in_creationData inputData) \<and>
         fst (getCreationData E (in_chain inputData) (the (hd (in_addresses inputData))) []) =
           Inr (rc_bytecode cr))) \<or>
     \<not> truthy (in_bytecode inputData) \<and> chains E (in_chain inputData) = Some c \<and>
       fetchDeployed E c a = Some d \<and>
       fst (getCreationData E (in_chain inputData) a []) = Inr (rc_bytecode cr)) \<and>
    getMetadataPathFromCborEncoded E cr a (in_chain inputData) tr1 = (Inr p, tr2) \<and>
    q = statusToMatchQuality (if p = None then Some partial else Some perfect) \<and>
    (\<forall>ev \<in> set (storagePlan p q (in_chain inputData) a contract cr (Some ''0x'')).
       outcome E ev = None)"
  then have om: "obtainMatch E inputData tr = (Inr (contract, cr, m), tr1)"
    and ad: "m_address m = Some a" "a \<noteq> []" and ne: "?ccb \<noteq> []"
    and gate: "reachesCreationData E d ?crb"
    and gp: "getMetadataPathFromCborEncoded E cr a ?chain tr1 = (Inr p, tr2)"
    and q: "q = statusToMatchQuality (if p = None then Some partial else Some perfect)"
    and acc: "\<forall>ev \<in> set (storagePlan p q ?chain a contract cr (Some ''0x'')). outcome E ev = None"
    by blast+
  have m: "m = \<lparr>m_address = Some a, m_status = Some perfect,
                 m_encodedConstructorArgs = Some ''0x'', m_message = None\<rparr>"
  proof -
    from h consider
      (known) "in_bytecode inputData = Some d"
        "in_creationData inputData = Some ?ccb \<or>
         (\<not> truthy (in_creationData inputData) \<and>
          fst (getCreationData E ?chain (the (hd (in_addresses inputData))) []) = Inr ?ccb)"
      | (fetched) "\<not> truthy (in_bytecode inputData)" "chains E ?chain = Some c"
        "fetchDeployed E c a = Some d" "fst (getCreationData E ?chain a []) = Inr ?ccb"
      by blast
    then show ?thesis
    proof cases
      case known
      from gate have "d \<noteq> []" by (auto simp: reachesCreationData_def)
      from obtainMatch_known_bytecode [OF om known(1) this]
        compare_exact_creation [OF gate ne known(2), of tr] ad
      show ?thesis by auto
    next
      case fetched
      have "fst (candidateCompare E c ?chain ?crb ?ccb a) =
              Inr \<lparr>cr_status = Some perfect, cr_encodedConstructorArgs = Some ''0x''\<rparr>"
        using compare_exact_creation [OF gate ne, of None ?chain a "[]"] fetched(3,4)
        by (simp add: candidateCompare_def)
      with obtainMatch_candidates [OF om fetched(1,2) ad(1)] show ?thesis
        by (simp add: candidateStatus_def candidateArgs_def)
    qed
  qed
  have st: "m_status m \<noteq> None" using m by simp
  have inj: "inject E inputData tr = storeMatch E ?chain contract cr m tr1"
    using om by (simp add: inject_def)
  have plan: "storagePlan p (statusToMatchQuality (if p = None then Some partial else m_status m))
        ?chain a contract cr (m_encodedConstructorArgs m) =
      storagePlan p q ?chain a contract cr (Some ''0x'')"
    using m q by simp
  from storeMatch_perform [OF ad st gp, of contract] inj plan performAll_accepted [OF acc, of tr2] m
  show "inject E inputData tr =
        (Inr \<lparr>m_address = Some a,
              m_status = (if p = None then Some partial else Some perfect),
              m_encodedConstructorArgs = Some ''0x'', m_message = None\<rparr>,
         tr2 @ storagePlan p q ?chain a contract cr (Some ''0x''))"
    by (simp add: stored_def)
  show "last (storagePlan p q ?chain a contract cr (Some ''0x'')) =
        Save (Config \<lparr>matchQuality = q, pc_chain = ?chain, pc_address = a,
                       source = Some False, fileName = ''constructor-args.txt''\<rparr>) ''0x''"
    by (simp add: storagePlan_def constructorArgsSave_def)
qed

theorem empty_constructor_args_stored_witness:
  "fst (compareBytecodes (exEnv exChainNone exDown exDown exDown (exTrailer ''ipfs''))
          (Some ''0x6002aa'') (Some ''0x60806001bb'') ''0x6001bb'' ''0x60806001bb'' ''1'' ''0xB'' []) =
     Inr \<lparr>cr_status = Some perfect, cr_encodedConstructorArgs = Some ''0x''\<rparr> \<and>
   inject (exEnv exChainNone exDown exDown exDown (exTrailer ''ipfs''))
      (exInput [Some ''0xB''] (Some ''0x6002aa'') (Some ''0x60806001bb'')) [] =
     (Inr \<lparr>m_address = Some ''0xB'', m_status = Some perfect,
           m_encodedConstructorArgs = Some ''0x'', m_message = None\<rparr>,
      [Save (Path ''/ipfs/Qm11'') ''{}'',
       DeletePartial ''1'' ''0xB'',
       Save (Config \<lparr>matchQuality = Some full, pc_chain = ''1'', pc_address = ''0xB'',
                      source = Some True, fileName = ''a_b.sol''\<rparr>) ''src'',
       Save (Config \<lparr>matchQuality = Some full, pc_chain = ''1'', pc_address = ''0xB'',
                      source = None, fileName = ''metadata.json''\<rparr>) ''{}'',
       Save (Config \<lparr>matchQuality = Some full, pc_chain = ''1'', pc_address = ''0xB'',
                      source = Some False, fileName = ''constructor-args.txt''\<rparr>) ''0x'']) \<and>
   inject (exEnv exChainAll (Inr ''0x60806001bb'') exDown exDown (exTrailer ''solc''))
      (exInput [Some ''0xB''] None None) [] =
     (Inr \<lparr>m_address = Some ''0xB'', m_status = Some partial,
           m_encodedConstructorArgs = Some ''0x'', m_message = None\<rparr>,
      [Log Info ''[MATCH]'' None (Some ''Retrieving contract bytecode address''),
       GetBytecode ''rpc'' ''0xB'',
       Log Info loc_creation None (Some ''Scraping block explorer''),
       Scraping ''x/0xB'' ''tx'' ''rpc'',
       Log Err ''[INJECTOR:GET_METADATA_PATH]'' (Some ''No metadata hash in cbor encoded data.'') None,
       Save (Config \<lparr>matchQuality = Some partial_quality, pc_chain = ''1'', pc_address = ''0xB'',
                      source = Some True, fileName = ''a_b.sol''\<rparr>) ''src'',
       Save (Config \<lparr>matchQuality = Some partial_quality, pc_chain = ''1'', pc_address = ''0xB'',
                      source = None, fileName = ''metadata.json''\<rparr>) ''{}'',
       Save (Config \<lparr>matchQuality = Some partial_quality, pc_chain = ''1'', pc_address = ''0xB'',
                      source = Some False, fileName = ''constructor-args.txt''\<rparr>) ''0x''])"
proof -
  let ?F = "exEnv exChainAll (Inr ''0x60806001bb'') exDown exDown (exTrailer ''solc'')"
  let ?J = "exInput [Some ''0xB''] None None"
  let ?t1 = "[Log Info ''[MATCH]'' None (Some ''Retrieving contract bytecode address''),
       GetBytecode ''rpc'' ''0xB'',
       Log Info loc_creation None (Some ''Scraping block explorer''),
       Scraping ''x/0xB'' ''tx'' ''rpc'']"
  let ?t2 = "?t1 @ [Log Err ''[INJECTOR:GET_METADATA_PATH]''
                      (Some ''No metadata hash in cbor encoded data.'') None]"
  let ?planJ = "storagePlan None (Some partial_quality) (in_chain ?J) ''0xB'' exContract
                  exResult (Some ''0x'')"
  let ?E = "exEnv exChainNone exDown exDown exDown (exTrailer ''ipfs'')"
  let ?I = "exInput [Some ''0xB''] (Some ''0x6002aa'') (Some ''0x60806001bb'')"
  let ?m = "\<lparr>m_address = Some ''0xB'', m_status = Some perfect,
           m_encodedConstructorArgs = Some ''0x'', m_message = None\<rparr>"
  let ?plan = "storagePlan (Some ''/ipfs/Qm11'') (Some full) (in_chain ?I) ''0xB'' exContract
                 exResult (Some ''0x'')"
  have s: "sanitizePath ''a b.sol'' = ''a_b.sol''"
    by (simp add: sanitizePath_def allowedChar_def dotsEnd_def)
  have g: "reachesCreationData ?E ''0x6002aa'' ''0x6001bb'' \<and> ''0x60806001bb'' \<noteq> [] \<and>
    (Some ''0x60806001bb'' = Some ''0x60806001bb'' \<or>
     (\<not> truthy (Some ''0x60806001bb'') \<and>
      fst (getCreationData ?E ''1'' ''0xB'' []) = Inr ''0x60806001bb''))"
    by (simp add: reachesCreationData_def exEnv_def exTrim_def)
  have o: "obtainMatch ?E ?I [] = (Inr (exContract, exResult, ?m), []) \<and>
    m_address ?m = Some ''0xB'' \<and> ''0xB'' \<noteq> [] \<and> rc_bytecode exResult \<noteq> [] \<and>
    reachesCreationData ?E ''0x6002aa'' (rc_deployedBytecode exResult) \<and>
    (in_bytecode ?I = Some ''0x6002aa'' \<and>
       (in_creationData ?I = Some (rc_bytecode exResult) \<or>
        (\<not> truthy (in_creationData ?I) \<and>
         fst (getCreationData ?E (in_chain ?I) (the (hd (in_addresses ?I))) []) =
           Inr (rc_bytecode exResult))) \<or>
     \<not> truthy (in_bytecode ?I) \<and> chains ?E (in_chain ?I) = Some exChainNone \<and>
       fetchDeployed ?E exChainNone ''0xB'' = Some ''0x6002aa'' \<and>
       fst (getCreationData ?E (in_chain ?I) ''0xB'' []) = Inr (rc_bytecode exResult)) \<and>
    getMetadataPathFromCborEncoded ?E exResult ''0xB'' (in_chain ?I) [] =
      (Inr (Some ''/ipfs/Qm11''), []) \<and>
    Some full = statusToMatchQuality
                  (if Some ''/ipfs/Qm11'' = None then Some partial else Some perfect) \<and>
    (\<forall>ev \<in> set ?plan. outcome ?E ev = None)"
    by (simp add: inject_defs run_defs ex_defs getMetadataPathFromCborEncoded_def
        extractEncodedConstructorArgs_def indexOf_def slice_def reachesCreationData_def
        statusToMatchQuality_def storagePlan_def perform_defs)
  have oJ: "obtainMatch ?F ?J [] = (Inr (exContract, exResult, ?m), ?t1) \<and>
    m_address ?m = Some ''0xB'' \<and> ''0xB'' \<noteq> [] \<and> rc_bytecode exResult \<noteq> [] \<and>
    reachesCreationData ?F ''0x6002aa'' (rc_deployedBytecode exResult) \<and>
    (in_bytecode ?J = Some ''0x6002aa'' \<and>
       (in_creationData ?J = Some (rc_bytecode exResult) \<or>
        (\<not> truthy (in_creationData ?J) \<and>
         fst (getCreationData ?F (in_chain ?J) (the (hd (in_addresses ?J))) []) =
           Inr (rc_bytecode exResult))) \<or>
     \<not> truthy (in_bytecode ?J) \<and> chains ?F (in_chain ?J) = Some exChainAll \<and>
       fetchDeployed ?F exChainAll ''0xB'' = Some ''0x6002aa'' \<and>
       fst (getCreationData ?F (in_chain ?J) ''0xB'' []) = Inr (rc_bytecode exResult)) \<and>
    getMetadataPathFromCborEncoded ?F exResult ''0xB'' (in_chain ?J) ?t1 = (Inr None, ?t2) \<and>
    Some partial_quality = statusToMatchQuality
                  (if (None :: string option) = None then Some partial else Some perfect) \<and>
    (\<forall>ev \<in> set ?planJ. outcome ?F ev = None)"
    by (simp add: inject_defs run_defs ex_defs getMetadataPathFromCborEncoded_def
        extractEncodedConstructorArgs_def indexOf_def slice_def reachesCreationData_def
        statusToMatchQuality_def storagePlan_def perform_defs fetchDeployed_def replace_def)
  note thJ = empty_constructor_args_stored [where E = ?F and d = "''0x6002aa''"
      and tr = "[]" and inputData = ?J
      and contract = exContract and cr = exResult and m = ?m and ?tr1.0 = ?t1
      and a = "''0xB''" and c = exChainAll and p = None and ?tr2.0 = ?t2
      and q = "Some partial_quality"]
  note th = empty_constructor_args_stored [where E = ?E and d = "''0x6002aa''"
      and crb = "''0x6001bb''" and ccb = "''0x60806001bb''" and cd = "Some ''0x60806001bb''"
      and chain = "''1''" and x = "''0xB''" and tr = "[]" and inputData = ?I
      and contract = exContract and cr = exResult and m = ?m and ?tr1.0 = "[]"
      and a = "''0xB''" and c = exChainNone and p = "Some ''/ipfs/Qm11''" and ?tr2.0 = "[]"
      and q = "Some full"]
  from mp [OF conjunct1 [OF th] g] mp [OF conjunct2 [OF th] o] mp [OF conjunct2 [OF thJ] oJ] s
  show ?thesis
    by (simp add: storagePlan_def perform_defs ex_defs)
qed

text \<open>
  Claim C10 as stated fails when the runtime bytecodes are equal: with supplied
  creation data equal to the compiled creation bytecode the comparator returns perfect
  without constructor arguments, and \<open>inject\<close> saves no file for them.
\<close>

theorem equal_runtime_no_args_counterexample:
  "compareBytecodes (exEnv exChainNone exDown exDown exDown (exTrailer ''ipfs''))
      (Some ''0x6001bb'') (Some ''0x60806001bb'') ''0x6001bb'' ''0x60806001bb'' ''1'' ''0xA'' [] =
     (Inr \<lparr>cr_status = Some perfect, cr_encodedConstructorArgs = None\<rparr>, []) \<and>
   inject (exEnv exChainNone exDown exDown exDown (exTrailer ''ipfs''))
      (exInput [Some ''0xA''] (Some ''0x6001bb'') (Some ''0x60806001bb'')) [] =
     (Inr \<lparr>m_address = Some ''0xA'', m_status = Some perfect,
           m_encodedConstructorArgs = None, m_message = None\<rparr>,
      [Save (Path ''/ipfs/Qm11'') ''{}'',
       DeletePartial ''1'' ''0xA'',
       Save (Config \<lparr>matchQuality = Some full, pc_chain = ''1'', pc_address = ''0xA'',
                      source = Some True, fileName = ''a_b.sol''\<rparr>) ''src'',
       Save (Config \<lparr>matchQuality = Some full, pc_chain = ''1'', pc_address = ''0xA'',
                      source = None, fileName = ''metadata.json''\<rparr>) ''{}''])"
  by (simp add: store_defs inject_defs run_defs ex_defs sanitizePath_def allowedChar_def
      dotsEnd_def)

end
